theory Spec2Isabelle
  imports Complex_Main "HOL-Library.Multiset"
begin

section \<open>Data model of model.py\<close>

text \<open>
  A Python float is the real number it denotes, and Python's unbounded integers are
  \<open>nat\<close> or \<open>int\<close>. Sums and comparisons of floats are taken exactly; the division
  in \<open>step\<close>, whose rounding decides the lockdown, is rounded as Python rounds it. Every
  exception the modelled code can raise is a value of \<open>error\<close>.
\<close>

datatype InfectionState = CLEAN | INFECTED | RECOVERED | DEAD

datatype QuarantineState = QUARANTINE | FREE

datatype error =
    IndexError
  | KeyError
  | ZeroDivisionError
  | UnboundLocalError
  | ValueError
  | OverflowError
  | GridFull

text \<open>
  The attributes of a \<open>MainAgent\<close> that model.py reads or writes. The class itself lives in
  agent.py; \<open>unique_id\<close> and \<open>pos\<close> are the attributes every mesa agent carries.
\<close>

record MainAgent =
  unique_id :: nat
  pos :: "nat \<times> nat"
  infectionstate :: InfectionState
  quarantinestate :: QuarantineState
  infected_time :: nat
  aspiration :: real
  action_prob :: "string \<rightharpoonup> real"
  action_done :: "string list"

text \<open>One value a model reporter hands to the data collector: a count or a float.\<close>

datatype metric = Count nat | Value real

text \<open>
  mesa's \<open>DataCollector\<close>: one list of collected values per model reporter, and one table of
  agent records per collection, keyed by the scheduler's step count.
\<close>

record DataCollector =
  model_vars :: "string \<Rightarrow> metric list"
  agent_records :: "nat \<rightharpoonup> (nat \<times> QuarantineState \<times> InfectionState) list"

text \<open>
  The fields of \<open>MainModel\<close>, in the order \<open>__init__\<close> assigns them. \<open>grid\<close> is the
  \<open>SingleGrid\<close> as the list of its cells in the order of \<open>coord_iter\<close> (column \<open>x\<close> by
  column, cell \<open>(x, y)\<close> at index \<open>x * height + y\<close>), each cell empty or holding one agent.
  \<open>schedule_agents\<close>, \<open>schedule_steps\<close> and \<open>schedule_time\<close> are the scheduler's agents
  (in insertion order), its step count and its clock. \<open>random_state\<close> is the state of
  \<open>self.random\<close>, the generator mesa's \<open>Model\<close> creates, as a number.
\<close>

record MainModel =
  population_density :: real
  death_rate :: real
  width :: int
  height :: int
  transfer_rate :: real
  initial_infection_rate :: real
  recovery_days :: int
  dead_agents_number :: nat
  government_action_threshold :: real
  government_stringent :: real
  lockdown :: bool
  quarantine_prob :: real
  habituation :: real
  learning_rate :: real
  global_aspiration :: real
  action_count :: nat
  action_infection_prob :: "string \<rightharpoonup> real"
  step_counter :: nat
  dilemma_list :: "real list"
  stay_in_list :: "real list"
  stay_out_list :: "real list"
  steps_list :: "real list"
  aspiration_list :: "real list"
  infection_list :: "real list"
  grid :: "MainAgent option list"
  schedule_agents :: "MainAgent list"
  schedule_steps :: nat
  schedule_time :: nat
  random_state :: nat
  total_population :: nat
  running :: bool
  datacollector :: DataCollector

section \<open>Reporters over the schedule\<close>

definition get_susceptible_number :: "MainModel \<Rightarrow> nat" where
  "get_susceptible_number model =
     length (filter (\<lambda>a. infectionstate a = CLEAN) (schedule_agents model))"

definition get_infected_number :: "MainModel \<Rightarrow> nat" where
  "get_infected_number model =
     length (filter (\<lambda>a. infectionstate a = INFECTED) (schedule_agents model))"

definition get_recovered_number :: "MainModel \<Rightarrow> nat" where
  "get_recovered_number model =
     length (filter (\<lambda>a. infectionstate a = RECOVERED) (schedule_agents model))"

definition get_dead_number :: "MainModel \<Rightarrow> nat" where
  "get_dead_number model = dead_agents_number model"

text \<open>\<open>a.action_done[-1]\<close>: the last action, \<open>IndexError\<close> on an empty history.\<close>

definition last_action :: "MainAgent \<Rightarrow> error + string" where
  "last_action a =
     (case action_done a of [] \<Rightarrow> Inl IndexError | _ # _ \<Rightarrow> Inr (last (action_done a)))"

text \<open>
  A list comprehension \<open>[a for a in xs if c(a)]\<close> whose condition may raise: the first
  agent at which the condition raises ends the comprehension with that exception.
\<close>

fun comprehension :: "('a \<Rightarrow> error + bool) \<Rightarrow> 'a list \<Rightarrow> error + 'a list" where
  "comprehension c [] = Inr []"
| "comprehension c (a # as) =
     (case c a of
        Inl e \<Rightarrow> Inl e
      | Inr b \<Rightarrow>
          (case comprehension c as of
             Inl e \<Rightarrow> Inl e
           | Inr r \<Rightarrow> Inr (if b then a # r else r)))"

definition is_stay_in :: "MainAgent \<Rightarrow> error + bool" where
  "is_stay_in a = (case last_action a of Inl e \<Rightarrow> Inl e | Inr s \<Rightarrow> Inr (s = ''Stay In''))"

definition is_not_stay_in :: "MainAgent \<Rightarrow> error + bool" where
  "is_not_stay_in a = (case last_action a of Inl e \<Rightarrow> Inl e | Inr s \<Rightarrow> Inr (s \<noteq> ''Stay In''))"

definition get_stay_in :: "MainModel \<Rightarrow> nat" where
  "get_stay_in model =
     (case comprehension is_stay_in (schedule_agents model) of
        Inr stay_in_number \<Rightarrow> length stay_in_number
      | Inl e \<Rightarrow> 0)"

definition get_go_out :: "MainModel \<Rightarrow> nat" where
  "get_go_out model =
     (case comprehension is_not_stay_in (schedule_agents model) of
        Inr go_out_number \<Rightarrow> length go_out_number
      | Inl e \<Rightarrow> 0)"

definition get_average_aspiration :: "MainModel \<Rightarrow> real" where
  "get_average_aspiration model = sum_list (map aspiration (schedule_agents model))"

text \<open>
  The loop variable \<open>i\<close> of \<open>for i, a in enumerate(xs)\<close>, read after the loop: the index
  of the last element, and unbound when the loop body never ran.
\<close>

definition enumerate_last :: "'a list \<Rightarrow> error + nat" where
  "enumerate_last xs = (if xs = [] then Inl UnboundLocalError else Inr (length xs - 1))"

text \<open>\<open>numerator / i\<close>: the operands are evaluated first, then the division may raise.\<close>

definition divide_by_index :: "real \<Rightarrow> error + nat \<Rightarrow> error + real" where
  "divide_by_index numerator i =
     (case i of
        Inl e \<Rightarrow> Inl e
      | Inr n \<Rightarrow> if n = 0 then Inl ZeroDivisionError else Inr (numerator / real n))"

text \<open>\<open>d[k]\<close> on a dict.\<close>

definition getitem :: "(string \<rightharpoonup> real) \<Rightarrow> string \<Rightarrow> error + real" where
  "getitem d k = (case d k of None \<Rightarrow> Inl KeyError | Some v \<Rightarrow> Inr v)"

text \<open>A loop appending \<open>f a\<close> for every agent, ended by the first exception.\<close>

fun append_each :: "('a \<Rightarrow> error + real) \<Rightarrow> 'a list \<Rightarrow> error + real list" where
  "append_each f [] = Inr []"
| "append_each f (a # as) =
     (case f a of
        Inl e \<Rightarrow> Inl e
      | Inr v \<Rightarrow> (case append_each f as of Inl e \<Rightarrow> Inl e | Inr vs \<Rightarrow> Inr (v # vs)))"

definition stay_in_prob :: "MainAgent \<Rightarrow> error + real" where
  "stay_in_prob a = getitem (action_prob a) ''Stay In''"

definition go_out_prob :: "MainAgent \<Rightarrow> error + real" where
  "go_out_prob a =
     (case getitem (action_prob a) ''Party'' of
        Inl e \<Rightarrow> Inl e
      | Inr p \<Rightarrow>
          (case getitem (action_prob a) ''Help elderly'' of
             Inl e \<Rightarrow> Inl e
           | Inr h \<Rightarrow>
               (case getitem (action_prob a) ''Buy grocery'' of
                  Inl e \<Rightarrow> Inl e
                | Inr b \<Rightarrow> Inr (p + h + b))))"

definition get_average_stay_in :: "MainModel \<Rightarrow> error + real" where
  "get_average_stay_in model =
     (case append_each stay_in_prob (schedule_agents model) of
        Inl e \<Rightarrow> Inl e
      | Inr stay_in_probs \<Rightarrow>
          divide_by_index (sum_list stay_in_probs) (enumerate_last (schedule_agents model)))"

definition get_average_go_out :: "MainModel \<Rightarrow> error + real" where
  "get_average_go_out model =
     (case append_each go_out_prob (schedule_agents model) of
        Inl e \<Rightarrow> Inl e
      | Inr go_out_probs \<Rightarrow>
          divide_by_index (sum_list go_out_probs) (enumerate_last (schedule_agents model)))"

section \<open>Query methods of MainModel\<close>

definition get_stay_in_number :: "MainModel \<Rightarrow> nat" where
  "get_stay_in_number self =
     (case comprehension is_stay_in (schedule_agents self) of
        Inr staying_in \<Rightarrow> length staying_in
      | Inl e \<Rightarrow> 0)"

definition get_stay_out_number :: "MainModel \<Rightarrow> nat" where
  "get_stay_out_number self =
     (case comprehension is_not_stay_in (schedule_agents self) of
        Inr staying_out \<Rightarrow> length staying_out
      | Inl e \<Rightarrow> 0)"

definition get_avg_aspiration :: "MainModel \<Rightarrow> real" where
  "get_avg_aspiration self =
     (case divide_by_index (sum_list (map aspiration (schedule_agents self)))
             (enumerate_last (schedule_agents self)) of
        Inr avg \<Rightarrow> avg
      | Inl e \<Rightarrow> 0)"

text \<open>
  The scan of the three counting methods: every cell of \<open>coord_iter\<close>, skipping the empty
  ones, adding one for each agent in the wanted state.
\<close>

fun scan_cells :: "InfectionState \<Rightarrow> MainAgent option list \<Rightarrow> nat \<Rightarrow> nat" where
  "scan_cells s [] number = number"
| "scan_cells s (None # cells) number = scan_cells s cells number"
| "scan_cells s (Some agent # cells) number =
     scan_cells s cells (if infectionstate agent = s then number + 1 else number)"

definition MainModel_get_susceptible_number :: "MainModel \<Rightarrow> nat" where
  "MainModel_get_susceptible_number self = scan_cells CLEAN (grid self) 0"

definition MainModel_get_infection_number :: "MainModel \<Rightarrow> nat" where
  "MainModel_get_infection_number self = scan_cells INFECTED (grid self) 0"

definition MainModel_get_recovered_number :: "MainModel \<Rightarrow> nat" where
  "MainModel_get_recovered_number self = scan_cells RECOVERED (grid self) 0"

definition MainModel_get_dead_number :: "MainModel \<Rightarrow> nat" where
  "MainModel_get_dead_number self = dead_agents_number self"

section \<open>Collecting the metrics\<close>

text \<open>The model reporters handed to the \<open>DataCollector\<close>, in the order of the dict.\<close>

definition model_reporters :: "(string \<times> (MainModel \<Rightarrow> error + metric)) list" where
  "model_reporters =
     [(''Infected'', \<lambda>m. Inr (Count (get_infected_number m))),
      (''Recovered'', \<lambda>m. Inr (Count (get_recovered_number m))),
      (''Dead'', \<lambda>m. Inr (Count (get_dead_number m))),
      (''Stay In'', \<lambda>m. Inr (Count (get_stay_in m))),
      (''Go Out'', \<lambda>m. Inr (Count (get_go_out m))),
      (''Susceptible'', \<lambda>m. Inr (Count (get_susceptible_number m))),
      (''Aspiration'', \<lambda>m. Inr (Value (get_average_aspiration m))),
      (''Average Aspiration'', \<lambda>m. Inr (Value (get_average_aspiration m))),
      (''Average Stay In'', \<lambda>m. map_sum id Value (get_average_stay_in m)),
      (''Average Get Out'', \<lambda>m. map_sum id Value (get_average_go_out m))]"

text \<open>
  \<open>DataCollector.collect\<close> (mesa): each reporter's value is appended to the reporter's
  list; a reporter that raises ends the collection, the values appended before it stay.
\<close>

fun collect_model_vars ::
  "(string \<times> (MainModel \<Rightarrow> error + metric)) list \<Rightarrow> MainModel \<Rightarrow>
     (string \<Rightarrow> metric list) \<Rightarrow> error option \<times> (string \<Rightarrow> metric list)" where
  "collect_model_vars [] model vars = (None, vars)"
| "collect_model_vars ((var, reporter) # reporters) model vars =
     (case reporter model of
        Inl e \<Rightarrow> (Some e, vars)
      | Inr v \<Rightarrow> collect_model_vars reporters model (vars(var := vars var @ [v])))"

text \<open>The agent reporters: the attributes \<open>quarantinestate\<close> and \<open>infectionstate\<close>.\<close>

definition record_agents :: "MainModel \<Rightarrow> (nat \<times> QuarantineState \<times> InfectionState) list" where
  "record_agents model =
     map (\<lambda>a. (unique_id a, quarantinestate a, infectionstate a)) (schedule_agents model)"

definition collect :: "MainModel \<Rightarrow> error option \<times> MainModel" where
  "collect model =
     (case collect_model_vars model_reporters model (model_vars (datacollector model)) of
        (Some e, vars) \<Rightarrow>
          (Some e, model\<lparr>datacollector := (datacollector model)\<lparr>model_vars := vars\<rparr>\<rparr>)
      | (None, vars) \<Rightarrow>
          (None, model\<lparr>datacollector := (datacollector model)
             \<lparr>model_vars := vars,
              agent_records :=
                (agent_records (datacollector model))(schedule_steps model \<mapsto> record_agents model)\<rparr>\<rparr>))"

section \<open>One step of the model\<close>

text \<open>
  Modelled from the spec: \<open>self.schedule.step()\<close> runs mesa's \<open>RandomActivation\<close> over
  \<open>MainAgent.step\<close> of agent.py, which is not available. By the spec an activation
  changes the agents (seen through the grid and the schedule), the scheduler's counters,
  the draws taken from the generator and \<open>deadAgentsNumber\<close>, and nothing else of the
  model. The pass is therefore a parameter: a function from the model to what it leaves
  behind, with the exception it raised, if any.
\<close>

record activated =
  after_grid :: "MainAgent option list"
  after_agents :: "MainAgent list"
  after_steps :: nat
  after_time :: nat
  after_random_state :: nat
  after_dead_agents_number :: nat

type_synonym activation = "MainModel \<Rightarrow> error option \<times> activated"

definition schedule_step :: "activation \<Rightarrow> MainModel \<Rightarrow> error option \<times> MainModel" where
  "schedule_step activate self =
     (case activate self of
        (raised, r) \<Rightarrow>
          (raised, self\<lparr>grid := after_grid r,
                        schedule_agents := after_agents r,
                        schedule_steps := after_steps r,
                        schedule_time := after_time r,
                        random_state := after_random_state r,
                        dead_agents_number := after_dead_agents_number r\<rparr>))"

text \<open>
  Python's \<open>a / b\<close> on two non-negative integers: the double nearest to the exact
  quotient, ties going to the even significand, \<open>ZeroDivisionError\<close> for a zero divisor
  and \<open>OverflowError\<close> beyond the doubles. \<open>bit_length\<close> is \<open>int.bit_length\<close>;
  \<open>double_exponent a b\<close> is the \<open>e\<close> with \<open>2 ^ e \<le> a / b < 2 ^ (e + 1)\<close>; the quotient is
  rounded to a multiple of \<open>2 ^ (e - 52)\<close>, of \<open>2 ^ - 1074\<close> in the subnormal range.
\<close>

fun bit_length :: "nat \<Rightarrow> nat" where
  "bit_length n = (if n = 0 then 0 else Suc (bit_length (n div 2)))"

definition round_half_even :: "int \<Rightarrow> int \<Rightarrow> int" where
  "round_half_even p q =
     (let n = p div q; r = p mod q
      in if 2 * r < q then n
         else if q < 2 * r then n + 1
         else if even n then n else n + 1)"

definition double_exponent :: "nat \<Rightarrow> nat \<Rightarrow> int" where
  "double_exponent a b =
     (let d = int (bit_length a) - int (bit_length b)
      in if (if 0 \<le> d then int b * 2 ^ nat d \<le> int a else int b \<le> int a * 2 ^ nat (- d))
         then d else d - 1)"

definition true_divide :: "nat \<Rightarrow> nat \<Rightarrow> error + real" where
  "true_divide a b =
     (if b = 0 then Inl ZeroDivisionError
      else if a = 0 then Inr 0
      else
        (let k = min (52 - double_exponent a b) 1074
         in if 0 \<le> k
            then Inr (real_of_int (round_half_even (int a * 2 ^ nat k) (int b)) / 2 ^ nat k)
            else
              (let q = round_half_even (int a) (int b * 2 ^ nat (- k)) * 2 ^ nat (- k)
               in if 2 ^ 1024 \<le> q then Inl OverflowError else Inr (real_of_int q))))"

text \<open>
  The two tests that end \<open>MainModel.step\<close>: the lockdown once the infected share, as
  Python divides, exceeds the threshold, and the halt once nobody is infected.
\<close>

definition check_lockdown :: "MainModel \<Rightarrow> error option \<times> MainModel" where
  "check_lockdown self =
     (case true_divide (MainModel_get_infection_number self) (total_population self) of
        Inl e \<Rightarrow> (Some e, self)
      | Inr share \<Rightarrow>
          if share > government_action_threshold self
          then (None, self\<lparr>lockdown := True\<rparr>)
          else (None, self))"

definition check_eradicated :: "MainModel \<Rightarrow> MainModel" where
  "check_eradicated self =
     (if MainModel_get_recovered_number self + MainModel_get_dead_number self
           + MainModel_get_susceptible_number self = total_population self
      then self\<lparr>running := False\<rparr>
      else self)"

text \<open>
  \<open>MainModel.step\<close>. The result is the exception that ended the call, if any, and the
  model as the call leaves it, which after an exception is the model as mutated so far.
\<close>

definition step :: "activation \<Rightarrow> MainModel \<Rightarrow> error option \<times> MainModel" where
  "step activate self =
     (case collect (self\<lparr>step_counter := step_counter self + 1\<rparr>) of
        (Some e, collected) \<Rightarrow> (Some e, collected)
      | (None, collected) \<Rightarrow>
          (case schedule_step activate collected of
             (Some e, stepped) \<Rightarrow> (Some e, stepped)
           | (None, stepped) \<Rightarrow>
               (case check_lockdown stepped of
                  (Some e, checked) \<Rightarrow> (Some e, checked)
                | (None, checked) \<Rightarrow> (None, check_eradicated checked))))"

text \<open>
  Successive calls of \<open>step\<close>, one activation per call; an exception ends the run.
\<close>

fun steps :: "activation list \<Rightarrow> MainModel \<Rightarrow> error option \<times> MainModel" where
  "steps [] self = (None, self)"
| "steps (activate # rest) self =
     (case step activate self of
        (Some e, self') \<Rightarrow> (Some e, self')
      | (None, self') \<Rightarrow> steps rest self')"

section \<open>Construction\<close>

text \<open>
  \<open>__init__\<close> draws from two random sources. \<open>self.random\<close> is the generator that mesa
  creates and seeds for the model, a \<open>random.Random\<close> of Python's library. Two of its
  methods are called: \<open>random()\<close> for the density test and, through \<open>random.choice\<close>
  in mesa's \<open>position_agent\<close>, \<open>_randbelow(n)\<close>. What a call returns depends on the calls
  made before it, so the generator is a state machine: its state, a finite bit vector
  written as a number, and the two methods as functions from a state to the result and the
  next state. The methods belong to the library and are parameters.
\<close>

record generator =
  next_random :: "nat \<Rightarrow> real \<times> nat"
  next_randbelow :: "nat \<Rightarrow> nat \<Rightarrow> nat \<times> nat"

text \<open>
  The other source is numpy's global generator behind \<open>np.random.choice\<close>. Each call
  here takes one uniform deviate of \<open>[0, 1)\<close> from it and nothing else does, so it is
  represented by the sequence of the deviates it gives, one per call.
\<close>

type_synonym draws = "nat \<Rightarrow> real"

text \<open>
  \<open>np.random.choice([0, 1], p=[1 - r, r])\<close> on the deviate \<open>u\<close>: numpy rejects a
  probability vector with a negative entry, and otherwise returns the number of entries
  of the cumulative sums \<open>[1 - r, 1]\<close> that are at most \<open>u\<close>.
\<close>

definition np_random_choice :: "real \<Rightarrow> real \<Rightarrow> error + nat" where
  "np_random_choice r u =
     (if 1 - r < 0 \<or> r < 0 then Inl ValueError
      else Inr (if 1 - r \<le> u then 1 else 0))"

text \<open>
  \<open>random.choice(seq)\<close> in the state \<open>g\<close>: \<open>IndexError\<close> on an empty sequence, otherwise
  \<open>seq[self._randbelow(len(seq))]\<close>. The result comes with the next state.
\<close>

definition random_choice :: "generator \<Rightarrow> nat \<Rightarrow> 'a list \<Rightarrow> error + 'a \<times> nat" where
  "random_choice gen g seq =
     (if seq = [] then Inl IndexError
      else
        (case next_randbelow gen (length seq) g of
           (i, g') \<Rightarrow> if i < length seq then Inr (seq ! i, g') else Inl IndexError))"

text \<open>\<open>sorted(self.empties)\<close>: the empty cells, in the order of \<open>coord_iter\<close>.\<close>

definition empties :: "MainAgent option list \<Rightarrow> nat list" where
  "empties cells = filter (\<lambda>c. cells ! c = None) [0..<length cells]"

text \<open>
  \<open>SingleGrid.position_agent(agent, x="random", y="random")\<close> (mesa). The call in
  \<open>__init__\<close> passes the pair \<open>(x, y)\<close> as \<open>x\<close> and leaves \<open>y\<close> at \<open>"random"\<close>, so the
  agent goes to a cell chosen among the empty ones by \<open>agent.random\<close>, which is the
  model's generator; the chosen coordinates become \<open>agent.pos\<close>.
\<close>

definition position_agent ::
  "generator \<Rightarrow> nat \<Rightarrow> nat \<Rightarrow> MainAgent \<Rightarrow> MainAgent option list \<Rightarrow>
     error + MainAgent \<times> MainAgent option list \<times> nat" where
  "position_agent gen g h agent cells =
     (if empties cells = [] then Inl GridFull
      else
        (case random_choice gen g (empties cells) of
           Inl e \<Rightarrow> Inl e
         | Inr (c, g') \<Rightarrow>
             (let placed = agent\<lparr>pos := (c div h, c mod h)\<rparr>
              in Inr (placed, cells[c := Some placed], g'))))"

text \<open>
  The arguments of \<open>MainModel.__init__\<close>. The last three have the defaults \<open>11\<close>,
  \<open>0.1\<close> and \<open>0.1\<close> for a caller that leaves them out; here they are always given.
\<close>

record arguments =
  arg_population_density :: real
  arg_death_rate :: real
  arg_transfer_rate :: real
  arg_initial_infection_rate :: real
  arg_width :: int
  arg_height :: int
  arg_government_stringent :: real
  arg_government_action_threshold :: real
  arg_global_aspiration :: real
  arg_recovery_days :: int
  arg_habituation :: real
  arg_learning_rate :: real

text \<open>
  The locals of the loop that fills the grid, with the state of the model's generator and
  the number of deviates taken from numpy's.
\<close>

record populating =
  cells :: "MainAgent option list"
  scheduled :: "MainAgent list"
  next_id :: nat
  random_at :: nat
  np_used :: nat

text \<open>
  The loop over \<open>self.grid.coord_iter()\<close>. \<open>new\<close> stands for the constructor
  \<open>MainAgent(i, self, (x, y))\<close> of agent.py; \<open>gen\<close> is the model's generator and \<open>np\<close>
  the deviates of numpy's. The scheduler's clock is \<open>0\<close> during construction.
\<close>

fun populate ::
  "(nat \<Rightarrow> nat \<times> nat \<Rightarrow> MainAgent) \<Rightarrow> generator \<Rightarrow> draws \<Rightarrow> arguments \<Rightarrow>
     (nat \<times> nat) list \<Rightarrow> populating \<Rightarrow> error + populating" where
  "populate new gen np args [] st = Inr st"
| "populate new gen np args ((x, y) # coords) st =
     (case next_random gen (random_at st) of
        (u, drawn) \<Rightarrow>
          if u < arg_population_density args then
            (let agent = (new (next_id st) (x, y))\<lparr>unique_id := next_id st\<rparr> in
             case np_random_choice (arg_initial_infection_rate args) (np (np_used st)) of
               Inl e \<Rightarrow> Inl e
             | Inr chosen \<Rightarrow>
                 (let agent =
                        (if chosen = 1
                         then agent\<lparr>infectionstate := INFECTED,
                                    quarantinestate := FREE,
                                    infected_time := 0\<rparr>
                         else agent)
                  in case position_agent gen drawn (nat (arg_height args)) agent (cells st) of
                       Inl e \<Rightarrow> Inl e
                     | Inr (placed, grid', positioned) \<Rightarrow>
                         populate new gen np args coords
                           (st\<lparr>cells := grid',
                               scheduled := scheduled st @ [placed],
                               next_id := next_id st + 1,
                               random_at := positioned,
                               np_used := np_used st + 1\<rparr>)))
          else populate new gen np args coords (st\<lparr>random_at := drawn\<rparr>))"

text \<open>The coordinates \<open>coord_iter\<close> visits on a grid of the given width and height.\<close>

definition coord_iter :: "int \<Rightarrow> int \<Rightarrow> (nat \<times> nat) list" where
  "coord_iter w h = List.product [0..<nat w] [0..<nat h]"

text \<open>
  \<open>MainModel.__init__\<close>, with the state \<open>seed\<close> in which mesa hands over the generator.
\<close>

definition MainModel_init ::
  "(nat \<Rightarrow> nat \<times> nat \<Rightarrow> MainAgent) \<Rightarrow> generator \<Rightarrow> nat \<Rightarrow> draws \<Rightarrow> arguments \<Rightarrow>
     error + MainModel" where
  "MainModel_init new gen seed np args =
     (case populate new gen np args (coord_iter (arg_width args) (arg_height args))
             \<lparr>cells = replicate (nat (arg_width args) * nat (arg_height args)) None,
              scheduled = [], next_id = 0, random_at = seed, np_used = 0\<rparr> of
        Inl e \<Rightarrow> Inl e
      | Inr st \<Rightarrow>
          Inr \<lparr>population_density = arg_population_density args,
               death_rate = arg_death_rate args,
               width = arg_width args,
               height = arg_height args,
               transfer_rate = arg_transfer_rate args,
               initial_infection_rate = arg_initial_infection_rate args,
               recovery_days = arg_recovery_days args,
               dead_agents_number = 0,
               government_action_threshold = arg_government_action_threshold args,
               government_stringent = arg_government_stringent args,
               lockdown = False,
               quarantine_prob = 3 / 10,
               habituation = arg_habituation args,
               learning_rate = arg_learning_rate args,
               global_aspiration = arg_global_aspiration args,
               action_count = 4,
               action_infection_prob =
                 [''Stay In'' \<mapsto> 1 / 10, ''Party'' \<mapsto> 7 / 10,
                  ''Buy grocery'' \<mapsto> 5 / 10, ''Help elderly'' \<mapsto> 5 / 10],
               step_counter = 0,
               dilemma_list = [],
               stay_in_list = [],
               stay_out_list = [],
               steps_list = [],
               aspiration_list = [],
               infection_list = [],
               grid = cells st,
               schedule_agents = scheduled st,
               schedule_steps = 0,
               schedule_time = 0,
               random_state = random_at st,
               total_population = next_id st,
               running = True,
               datacollector = \<lparr>model_vars = \<lambda>var. [], agent_records = Map.empty\<rparr>\<rparr>)"

section \<open>Notions used to state the properties\<close>

text \<open>The agents placed on the grid, cell by cell.\<close>

fun occupants :: "MainAgent option list \<Rightarrow> MainAgent list" where
  "occupants [] = []"
| "occupants (None # rest) = occupants rest"
| "occupants (Some agent # rest) = agent # occupants rest"

text \<open>
  What mesa keeps true of a grid and a scheduler. \<open>SingleGrid\<close> stores the coordinates of
  the cell in \<open>agent.pos\<close> whenever it places an agent, so every agent on the grid has its
  own cell as position (with cell \<open>(x, y)\<close> at index \<open>x * height + y\<close>). The scheduler keeps
  its agents in a dict keyed by \<open>unique_id\<close>, so no two of them share an identifier.
\<close>

definition on_own_cell :: "nat \<Rightarrow> MainAgent option list \<Rightarrow> bool" where
  "on_own_cell h cs =
     list_all (\<lambda>c. case cs ! c of None \<Rightarrow> True | Some a \<Rightarrow> pos a = (c div h, c mod h))
       [0..<length cs]"

definition grid_state :: "MainModel \<Rightarrow> bool" where
  "grid_state m =
     (on_own_cell (nat (height m)) (grid m) \<and> distinct (map unique_id (schedule_agents m)))"

text \<open>The arithmetic mean of a non-empty list of values.\<close>

definition mean :: "real list \<Rightarrow> real" where
  "mean xs = sum_list xs / real (length xs)"

text \<open>What identifies an agent and says where it is: its identifier and its position.\<close>

definition agent_key :: "MainAgent \<Rightarrow> nat \<times> nat \<times> nat" where
  "agent_key a = (unique_id a, pos a)"

text \<open>
  What a constructed model shows of the placement of its agents: for every cell the
  identifier and position of its occupant, the same for the schedule, and the number of
  agents.
\<close>

definition placement ::
  "MainModel \<Rightarrow> (nat \<times> nat \<times> nat) option list \<times> (nat \<times> nat \<times> nat) list \<times> nat" where
  "placement m =
     (map (map_option agent_key) (grid m), map agent_key (schedule_agents m), total_population m)"

text \<open>The same view of the locals of the loop that fills the grid.\<close>

definition populated_key ::
  "populating \<Rightarrow> (nat \<times> nat \<times> nat) option list \<times> (nat \<times> nat \<times> nat) list \<times> nat \<times> nat" where
  "populated_key st =
     (map (map_option agent_key) (cells st), map agent_key (scheduled st),
      next_id st, random_at st)"

text \<open>
  One iteration of the loop that creates an agent, in two parts: the agent as it is
  created, seeded when numpy chose \<open>1\<close> and given the position \<open>p\<close>; and the locals once
  the agent is on cell \<open>c\<close> and in the schedule, the generator left in the state \<open>g\<close>.
\<close>

definition created ::
  "(nat \<Rightarrow> nat \<times> nat \<Rightarrow> MainAgent) \<Rightarrow> populating \<Rightarrow> nat \<times> nat \<Rightarrow> nat \<Rightarrow> nat \<times> nat \<Rightarrow>
     MainAgent" where
  "created new st xy chosen p =
     (if chosen = 1
      then (new (next_id st) xy)\<lparr>unique_id := next_id st, infectionstate := INFECTED,
             quarantinestate := FREE, infected_time := 0, pos := p\<rparr>
      else (new (next_id st) xy)\<lparr>unique_id := next_id st, pos := p\<rparr>)"

definition enrolled :: "populating \<Rightarrow> nat \<Rightarrow> MainAgent \<Rightarrow> nat \<Rightarrow> populating" where
  "enrolled st c placed g =
     st\<lparr>cells := (cells st)[c := Some placed],
        scheduled := scheduled st @ [placed],
        next_id := next_id st + 1,
        random_at := g,
        np_used := np_used st + 1\<rparr>"

text \<open>An infected agent that is free, infected at time \<open>0\<close>; any agent that is not infected.\<close>

definition free_if_infected :: "MainAgent \<Rightarrow> bool" where
  "free_if_infected a =
     (if infectionstate a = INFECTED then quarantinestate a = FREE \<and> infected_time a = 0
      else True)"

text \<open>
  The sampling that the specification describes for the onset of an infection, written
  after its words: \<open>quarantineState\<close> is drawn as Bernoulli(\<open>quarantineProb\<close>), so on the
  uniform deviate \<open>u\<close> the agent is quarantined when \<open>u < quarantineProb\<close>.
\<close>

definition specified_onset_sample :: "real \<Rightarrow> real \<Rightarrow> QuarantineState" where
  "specified_onset_sample prob u = (if u < prob then QUARANTINE else FREE)"

section \<open>Sample inputs\<close>

text \<open>A constructor of agents: susceptible, with an empty history and uniform probabilities.\<close>

definition sample_agent :: "nat \<Rightarrow> nat \<times> nat \<Rightarrow> MainAgent" where
  "sample_agent i p =
     \<lparr>unique_id = i, pos = p, infectionstate = CLEAN, quarantinestate = FREE,
      infected_time = 0, aspiration = 1 + 2 * real i,
      action_prob = [''Stay In'' \<mapsto> 1 / 4, ''Party'' \<mapsto> 1 / 4,
                     ''Buy grocery'' \<mapsto> 1 / 4, ''Help elderly'' \<mapsto> 1 / 4],
      action_done = []\<rparr>"

text \<open>Arguments in range: a grid of two cells, every cell populated.\<close>

definition sample_arguments :: arguments where
  "sample_arguments =
     \<lparr>arg_population_density = 1, arg_death_rate = 2 / 100, arg_transfer_rate = 3 / 10,
      arg_initial_infection_rate = 1 / 2, arg_width = 2, arg_height = 1,
      arg_government_stringent = 1 / 2, arg_government_action_threshold = 3 / 10,
      arg_global_aspiration = 3 / 10, arg_recovery_days = 11, arg_habituation = 1 / 10,
      arg_learning_rate = 1 / 10\<rparr>"

text \<open>
  A model of two infected agents with aspirations \<open>1\<close> and \<open>3\<close>, on a grid of two cells,
  before its first step.
\<close>

definition sample_model :: MainModel where
  "sample_model =
     \<lparr>population_density = 1, death_rate = 2 / 100, width = 2, height = 1,
      transfer_rate = 3 / 10, initial_infection_rate = 1, recovery_days = 11,
      dead_agents_number = 0, government_action_threshold = 3 / 10,
      government_stringent = 1 / 2, lockdown = False, quarantine_prob = 3 / 10,
      habituation = 1 / 10, learning_rate = 1 / 10, global_aspiration = 3 / 10,
      action_count = 4,
      action_infection_prob =
        [''Stay In'' \<mapsto> 1 / 10, ''Party'' \<mapsto> 7 / 10,
         ''Buy grocery'' \<mapsto> 5 / 10, ''Help elderly'' \<mapsto> 5 / 10],
      step_counter = 0, dilemma_list = [], stay_in_list = [], stay_out_list = [],
      steps_list = [], aspiration_list = [], infection_list = [],
      grid = [Some ((sample_agent 0 (0, 0))\<lparr>infectionstate := INFECTED\<rparr>),
              Some ((sample_agent 1 (1, 0))\<lparr>infectionstate := INFECTED\<rparr>)],
      schedule_agents = [(sample_agent 0 (0, 0))\<lparr>infectionstate := INFECTED\<rparr>,
                         (sample_agent 1 (1, 0))\<lparr>infectionstate := INFECTED\<rparr>],
      schedule_steps = 0, schedule_time = 0, random_state = 4, total_population = 2,
      running = True,
      datacollector = \<lparr>model_vars = \<lambda>var. [], agent_records = Map.empty\<rparr>\<rparr>"

text \<open>An activation that leaves every agent as it is and advances the scheduler.\<close>

definition idle :: activation where
  "idle self =
     (None, \<lparr>after_grid = grid self, after_agents = schedule_agents self,
             after_steps = schedule_steps self + 1, after_time = schedule_time self + 1,
             after_random_state = random_state self,
             after_dead_agents_number = dead_agents_number self\<rparr>)"

text \<open>An activation in which every agent recovers.\<close>

definition recover :: activation where
  "recover self =
     (None, \<lparr>after_grid = map (map_option (\<lambda>a. a\<lparr>infectionstate := RECOVERED\<rparr>)) (grid self),
             after_agents = map (\<lambda>a. a\<lparr>infectionstate := RECOVERED\<rparr>) (schedule_agents self),
             after_steps = schedule_steps self + 1, after_time = schedule_time self + 1,
             after_random_state = random_state self,
             after_dead_agents_number = dead_agents_number self\<rparr>)"

text \<open>
  A model of five agents, three of them infected, with the threshold \<open>0.6\<close>, that is the
  double nearest to \<open>6/10\<close>, which lies below \<open>3/5\<close>.
\<close>

definition boundary_model :: MainModel where
  "boundary_model =
     sample_model
       \<lparr>width := 5,
        government_action_threshold := 5404319552844595 / 9007199254740992,
        grid := [Some ((sample_agent 0 (0, 0))\<lparr>infectionstate := INFECTED\<rparr>),
                 Some ((sample_agent 1 (1, 0))\<lparr>infectionstate := INFECTED\<rparr>),
                 Some ((sample_agent 2 (2, 0))\<lparr>infectionstate := INFECTED\<rparr>),
                 Some (sample_agent 3 (3, 0)),
                 Some (sample_agent 4 (4, 0))],
        schedule_agents := [(sample_agent 0 (0, 0))\<lparr>infectionstate := INFECTED\<rparr>,
                            (sample_agent 1 (1, 0))\<lparr>infectionstate := INFECTED\<rparr>,
                            (sample_agent 2 (2, 0))\<lparr>infectionstate := INFECTED\<rparr>,
                            sample_agent 3 (3, 0),
                            sample_agent 4 (4, 0)],
        total_population := 5\<rparr>"

text \<open>Arguments with \<open>population_density = 0\<close>, on a grid of two by two cells.\<close>

definition empty_arguments :: arguments where
  "empty_arguments = sample_arguments\<lparr>arg_population_density := 0, arg_height := 2\<rparr>"

text \<open>Arguments for a single cell, populated, with no initial infection.\<close>

definition lone_arguments :: arguments where
  "lone_arguments = sample_arguments\<lparr>arg_width := 1, arg_initial_infection_rate := 0\<rparr>"

text \<open>Arguments under which every agent is seeded as infected.\<close>

definition seeding_arguments :: arguments where
  "seeding_arguments = sample_arguments\<lparr>arg_initial_infection_rate := 1\<rparr>"

text \<open>Arguments with a density and two rates outside \<open>[0, 1]\<close>.\<close>

definition unvalidated_arguments :: arguments where
  "unvalidated_arguments =
     sample_arguments\<lparr>arg_population_density := 2, arg_death_rate := 5,
                      arg_transfer_rate := - 1\<rparr>"

text \<open>
  A generator whose \<open>random()\<close> gives \<open>0\<close> and whose \<open>_randbelow\<close> gives \<open>0\<close>, the state
  counting the calls.
\<close>

definition sample_generator :: generator where
  "sample_generator =
     \<lparr>next_random = \<lambda>g. (0, g + 1), next_randbelow = \<lambda>n g. (0, g + 1)\<rparr>"

text \<open>Sequences of deviates of numpy's generator.\<close>

definition all_zero :: draws where
  "all_zero k = 0"

definition all_high :: draws where
  "all_high k = 99 / 100"

definition high_then_zero :: draws where
  "high_then_zero k = (if k < 2 then 99 / 100 else 0)"

section \<open>Properties of the queries\<close>

subsection \<open>Counts of the last action\<close>

lemma last_action_empty: "action_done a = [] \<Longrightarrow> last_action a = Inl IndexError"
  by (simp add: last_action_def)

lemma comprehension_empty_histories:
  assumes "\<forall>a \<in> set as. action_done a = []"
  shows "comprehension is_stay_in as = (if as = [] then Inr [] else Inl IndexError)"
    and "comprehension is_not_stay_in as = (if as = [] then Inr [] else Inl IndexError)"
  using assms by (cases as; simp add: is_stay_in_def is_not_stay_in_def last_action_empty)+

text \<open>
  Claim C10. In every model state in which the action history of every scheduled agent is
  empty, the four counts of agents staying in and going out (\<open>get_stay_in\<close>,
  \<open>get_go_out\<close>, \<open>MainModel.get_stay_in_number\<close>, \<open>MainModel.get_stay_out_number\<close>)
  return \<open>0\<close>: with no agent the comprehension is empty, and otherwise the
  \<open>IndexError\<close> of reading the last action is caught.
\<close>

theorem empty_histories_count_zero:
  assumes "\<forall>a \<in> set (schedule_agents m). action_done a = []"
  shows "get_stay_in m = 0 \<and> get_go_out m = 0 \<and>
         get_stay_in_number m = 0 \<and> get_stay_out_number m = 0"
  using comprehension_empty_histories [OF assms]
  by (simp add: get_stay_in_def get_go_out_def get_stay_in_number_def get_stay_out_number_def)

theorem empty_histories_count_zero_witness:
  "map action_done (schedule_agents sample_model) = [[], []] \<and>
   get_stay_in sample_model = 0 \<and> get_go_out sample_model = 0 \<and>
   get_stay_in_number sample_model = 0 \<and> get_stay_out_number sample_model = 0"
proof -
  have histories: "map action_done (schedule_agents sample_model) = [[], []]"
    by (simp add: sample_model_def sample_agent_def)
  have "\<forall>a \<in> set (schedule_agents sample_model). action_done a = []"
    by (simp add: sample_model_def sample_agent_def)
  from histories empty_histories_count_zero [OF this] show ?thesis by simp
qed

subsection \<open>Counts by infection state: grid scan against schedule scan\<close>

lemma scan_cells_filter:
  "scan_cells s cs n = n + length (filter (\<lambda>a. infectionstate a = s) (occupants cs))"
  by (induction s cs n rule: scan_cells.induct) simp_all

lemma count_of_same_agents:
  assumes "distinct xs" "distinct ys" "set xs = set ys"
  shows "length (filter P xs) = length (filter P ys)"
proof -
  have "mset xs = mset ys"
    using assms by (simp add: set_eq_iff_mset_eq_distinct)
  then have "mset (filter P xs) = mset (filter P ys)"
    by simp
  then show ?thesis
    by (metis size_mset)
qed

lemma occupants_member: "a \<in> set (occupants cs) \<longleftrightarrow> (\<exists>c<length cs. cs ! c = Some a)"
  by (induction cs rule: occupants.induct) (auto simp: less_Suc_eq_0_disj)

lemma distinct_occupants:
  assumes "\<And>i j a. i < length cs \<Longrightarrow> j < length cs \<Longrightarrow> cs ! i = Some a \<Longrightarrow> cs ! j = Some a
             \<Longrightarrow> i = j"
  shows "distinct (occupants cs)"
  using assms
proof (induction cs rule: occupants.induct)
  case 1
  then show ?case by simp
next
  case (2 rest)
  have "i = j" if "i < length rest" "j < length rest" "rest ! i = Some a" "rest ! j = Some a"
    for i j a
    using "2.prems" [of "Suc i" "Suc j" a] that by simp
  with "2.IH" show ?case by simp
next
  case (3 agent rest)
  have "i = j" if "i < length rest" "j < length rest" "rest ! i = Some a" "rest ! j = Some a"
    for i j a
    using "3.prems" [of "Suc i" "Suc j" a] that by simp
  with "3.IH" have "distinct (occupants rest)" by simp
  moreover have "agent \<notin> set (occupants rest)"
  proof
    assume "agent \<in> set (occupants rest)"
    then obtain c where "c < length rest" "rest ! c = Some agent"
      by (auto simp: occupants_member)
    with "3.prems" [of 0 "Suc c" agent] show False by simp
  qed
  ultimately show ?case by simp
qed

lemma on_own_cell_nth:
  "on_own_cell h cs \<longleftrightarrow> (\<forall>c<length cs. \<forall>a. cs ! c = Some a \<longrightarrow> pos a = (c div h, c mod h))"
  by (auto simp: on_own_cell_def list_all_iff split: option.splits)

lemma cell_index_unique:
  fixes i j h :: nat
  assumes "(i div h, i mod h) = (j div h, j mod h)"
  shows "i = j"
proof -
  have "i = i div h * h + i mod h" and "j = j div h * h + j mod h"
    by simp_all
  with assms show ?thesis
    by (metis prod.inject)
qed

lemma grid_state_distinct:
  assumes "grid_state m"
  shows "distinct (occupants (grid m))" and "distinct (schedule_agents m)"
proof -
  from assms have own: "\<forall>c<length (grid m). \<forall>a. grid m ! c = Some a \<longrightarrow>
      pos a = (c div nat (height m), c mod nat (height m))"
    by (simp add: grid_state_def on_own_cell_nth)
  have "i = j"
    if "i < length (grid m)" "j < length (grid m)" "grid m ! i = Some a" "grid m ! j = Some a"
    for i j a
  proof -
    from own that have "pos a = (i div nat (height m), i mod nat (height m))"
      and "pos a = (j div nat (height m), j mod nat (height m))"
      by blast+
    then show ?thesis
      by (intro cell_index_unique [of i "nat (height m)" j]) simp
  qed
  then show "distinct (occupants (grid m))"
    by (rule distinct_occupants)
  from assms show "distinct (schedule_agents m)"
    by (simp add: grid_state_def distinct_map)
qed

text \<open>
  Claim C9. In every state of the model, the grid and the scheduler being as mesa keeps
  them (\<open>grid_state\<close>), in which the set of agents placed on the grid equals the set of
  agents in the schedule, the grid-scanning methods and the schedule-scanning functions
  agree on the numbers of susceptible, infected and recovered agents.
\<close>

theorem grid_and_schedule_counts_agree:
  assumes "grid_state m"
    and "set (occupants (grid m)) = set (schedule_agents m)"
  shows "MainModel_get_susceptible_number m = get_susceptible_number m \<and>
         MainModel_get_infection_number m = get_infected_number m \<and>
         MainModel_get_recovered_number m = get_recovered_number m"
  using count_of_same_agents [OF grid_state_distinct [OF assms(1)] assms(2)]
  by (simp add: MainModel_get_susceptible_number_def MainModel_get_infection_number_def
      MainModel_get_recovered_number_def get_susceptible_number_def get_infected_number_def
      get_recovered_number_def scan_cells_filter)

theorem grid_and_schedule_counts_agree_witness:
  "grid_state sample_model \<and>
   set (occupants (grid sample_model)) = set (schedule_agents sample_model) \<and>
   MainModel_get_susceptible_number sample_model = get_susceptible_number sample_model \<and>
   MainModel_get_infection_number sample_model = get_infected_number sample_model \<and>
   MainModel_get_recovered_number sample_model = get_recovered_number sample_model \<and>
   MainModel_get_infection_number sample_model = 2"
proof -
  have g: "grid_state sample_model"
    by code_simp
  have s: "set (occupants (grid sample_model)) = set (schedule_agents sample_model)"
    by (simp add: sample_model_def)
  have n: "MainModel_get_infection_number sample_model = 2"
    by (simp add: sample_model_def sample_agent_def MainModel_get_infection_number_def)
  from g s n grid_and_schedule_counts_agree [OF g s] show ?thesis by simp
qed

subsection \<open>Averages\<close>

lemma get_avg_aspiration_last_index:
  assumes "2 \<le> length (schedule_agents m)"
  shows "get_avg_aspiration m =
           sum_list (map aspiration (schedule_agents m)) / real (length (schedule_agents m) - 1)"
  using assms by (auto simp: get_avg_aspiration_def divide_by_index_def enumerate_last_def)

lemma get_average_stay_in_last_index:
  assumes "append_each stay_in_prob (schedule_agents m) = Inr ps"
  shows "get_average_stay_in m =
           (if schedule_agents m = [] then Inl UnboundLocalError
            else if length (schedule_agents m) = 1 then Inl ZeroDivisionError
            else Inr (sum_list ps / real (length (schedule_agents m) - 1)))"
  using assms
  by (cases "schedule_agents m")
    (simp_all add: get_average_stay_in_def divide_by_index_def enumerate_last_def)

lemma averages_of_nobody:
  assumes "schedule_agents m = []"
  shows "get_average_aspiration m = 0" and "get_avg_aspiration m = 0"
    and "get_average_stay_in m = Inl UnboundLocalError"
    and "get_average_go_out m = Inl UnboundLocalError"
  using assms
  by (simp_all add: get_average_aspiration_def get_avg_aspiration_def get_average_stay_in_def
      get_average_go_out_def divide_by_index_def enumerate_last_def)

text \<open>
  Claim C3 against the code. A model constructed with \<open>population_density = 0\<close> has no
  agent and \<open>total_population = 0\<close>. The counts by state, the counts of the last action and
  both average-aspiration queries return \<open>0\<close>; \<open>get_average_stay_in\<close> and
  \<open>get_average_go_out\<close> raise instead, reading the loop variable \<open>i\<close> that no iteration
  has bound.
\<close>

theorem empty_population_queries:
  "case MainModel_init sample_agent sample_generator 0 all_zero empty_arguments of
     Inl e \<Rightarrow> False
   | Inr m \<Rightarrow>
       total_population m = 0 \<and> schedule_agents m = [] \<and>
       get_susceptible_number m = 0 \<and> get_infected_number m = 0 \<and>
       get_recovered_number m = 0 \<and> get_dead_number m = 0 \<and>
       MainModel_get_susceptible_number m = 0 \<and> MainModel_get_infection_number m = 0 \<and>
       MainModel_get_recovered_number m = 0 \<and> MainModel_get_dead_number m = 0 \<and>
       get_stay_in m = 0 \<and> get_go_out m = 0 \<and>
       get_average_aspiration m = 0 \<and> get_avg_aspiration m = 0 \<and>
       get_average_stay_in m = Inl UnboundLocalError \<and>
       get_average_go_out m = Inl UnboundLocalError"
  by code_simp

text \<open>
  Claim C4 against the code. For the two agents of the sample model, with aspirations
  \<open>1\<close> and \<open>3\<close> (mean \<open>2\<close>), stay-in probabilities \<open>1/4\<close> (mean \<open>1/4\<close>) and go-out
  probabilities \<open>3/4\<close> (mean \<open>3/4\<close>): \<open>get_average_aspiration\<close> returns the sum \<open>4\<close>,
  and \<open>get_avg_aspiration\<close>, \<open>get_average_stay_in\<close> and \<open>get_average_go_out\<close> divide
  the sum by the last index \<open>1\<close> instead of the number of agents, returning \<open>4\<close>,
  \<open>1/2\<close> and \<open>3/2\<close>.
\<close>

theorem averages_of_two_agents:
  "map aspiration (schedule_agents sample_model) = [1, 3] \<and>
   mean [1, 3] = 2 \<and>
   get_average_aspiration sample_model = 4 \<and>
   get_avg_aspiration sample_model = 4 \<and>
   append_each stay_in_prob (schedule_agents sample_model) = Inr [1 / 4, 1 / 4] \<and>
   mean [1 / 4, 1 / 4] = 1 / 4 \<and>
   get_average_stay_in sample_model = Inr (1 / 2) \<and>
   append_each go_out_prob (schedule_agents sample_model) = Inr [3 / 4, 3 / 4] \<and>
   mean [3 / 4, 3 / 4] = 3 / 4 \<and>
   get_average_go_out sample_model = Inr (3 / 2)"
  by code_simp

section \<open>Properties of a step\<close>

lemma step_frame:
  "(snd (step activate m))
     \<lparr>lockdown := lockdown m, dead_agents_number := dead_agents_number m,
      step_counter := step_counter m, running := running m,
      datacollector := datacollector m, grid := grid m,
      schedule_agents := schedule_agents m, schedule_steps := schedule_steps m,
      schedule_time := schedule_time m, random_state := random_state m\<rparr> = m"
  by (auto simp: step_def collect_def schedule_step_def check_lockdown_def check_eradicated_def
      split: prod.splits option.splits sum.splits if_splits)

lemma step_keeps_lockdown: "lockdown m \<Longrightarrow> lockdown (snd (step activate m))"
  by (auto simp: step_def collect_def schedule_step_def check_lockdown_def check_eradicated_def
      split: prod.splits option.splits sum.splits if_splits)

lemma step_keeps_halted: "\<not> running m \<Longrightarrow> \<not> running (snd (step activate m))"
  by (auto simp: step_def collect_def schedule_step_def check_lockdown_def check_eradicated_def
      split: prod.splits option.splits sum.splits if_splits)

lemma steps_keeps_lockdown: "lockdown m \<Longrightarrow> lockdown (snd (steps activations m))"
proof (induction activations arbitrary: m)
  case Nil
  then show ?case by simp
next
  case (Cons a rest)
  have l: "lockdown (snd (step a m))"
    using Cons.prems by (rule step_keeps_lockdown)
  show ?case
  proof (cases "step a m")
    case (Pair raised m')
    with l Cons.IH [of m'] show ?thesis
      by (cases raised) simp_all
  qed
qed

lemma steps_keeps_halted: "\<not> running m \<Longrightarrow> \<not> running (snd (steps activations m))"
proof (induction activations arbitrary: m)
  case Nil
  then show ?case by simp
next
  case (Cons a rest)
  have h: "\<not> running (snd (step a m))"
    using Cons.prems by (rule step_keeps_halted)
  show ?case
  proof (cases "step a m")
    case (Pair raised m')
    with h Cons.IH [of m'] show ?thesis
      by (cases raised) simp_all
  qed
qed

lemma step_sets_lockdown:
  assumes "step activate m = (None, m')"
    and "true_divide (MainModel_get_infection_number m') (total_population m') = Inr share"
    and "government_action_threshold m' < share"
  shows "lockdown m'"
  using assms
  by (auto simp: step_def collect_def schedule_step_def check_lockdown_def check_eradicated_def
      MainModel_get_infection_number_def
      split: prod.splits option.splits sum.splits if_splits)

lemma step_halts:
  assumes "step activate m = (None, m')"
    and "MainModel_get_recovered_number m' + MainModel_get_dead_number m'
           + MainModel_get_susceptible_number m' = total_population m'"
  shows "\<not> running m'"
  using assms
  by (auto simp: step_def collect_def schedule_step_def check_lockdown_def check_eradicated_def
      MainModel_get_recovered_number_def MainModel_get_dead_number_def
      MainModel_get_susceptible_number_def
      split: prod.splits option.splits sum.splits if_splits)

lemma true_divide_examples:
  "true_divide 1 2 = Inr (1 / 2)"
  "true_divide 2 2 = Inr 1"
  "true_divide 1 3 = Inr (6004799503160661 / 18014398509481984)"
  "true_divide 3 5 = Inr (5404319552844595 / 9007199254740992)"
  "true_divide 1 10 = Inr (3602879701896397 / 36028797018963968)"
  "true_divide 7 0 = Inl ZeroDivisionError"
  by code_simp+

text \<open>
  Claim C1, as stated, fails: \<open>step\<close> compares the quotient as Python computes it, a
  double, and the double nearest to the exact quotient can equal a threshold that the
  exact quotient exceeds. With three of five agents infected and the threshold \<open>0.6\<close>
  the step returns, the infected share \<open>3/5\<close> strictly exceeds the threshold, and the
  model is not in lockdown.
\<close>

theorem lockdown_misses_rounded_share:
  "fst (step idle boundary_model) = None \<and>
   MainModel_get_infection_number (snd (step idle boundary_model)) = 3 \<and>
   total_population (snd (step idle boundary_model)) = 5 \<and>
   government_action_threshold (snd (step idle boundary_model))
     < real (MainModel_get_infection_number (snd (step idle boundary_model)))
         / real (total_population (snd (step idle boundary_model))) \<and>
   \<not> lockdown (snd (step idle boundary_model))"
  by code_simp

text \<open>
  Claim C1, amended. A call of \<open>step\<close> that returns leaves \<open>lockdown\<close> true when the
  infected count of the grid as the scheduler pass left it, divided by
  \<open>total_population\<close> as Python divides (the double nearest to the exact quotient),
  strictly exceeds \<open>government_action_threshold\<close>; and a model in lockdown is still in
  lockdown after a step, however the step ends, and after every sequence of steps.
\<close>

theorem lockdown_triggered_and_sticky:
  "(step activate m = (None, m') \<longrightarrow>
      true_divide (MainModel_get_infection_number m') (total_population m') = Inr share \<longrightarrow>
      government_action_threshold m' < share \<longrightarrow>
      lockdown m') \<and>
   (lockdown m \<longrightarrow> lockdown (snd (step activate m))) \<and>
   (lockdown m \<longrightarrow> lockdown (snd (steps activations m)))"
  using step_sets_lockdown [of activate m m' share] step_keeps_lockdown [of m activate]
    steps_keeps_lockdown [of m activations]
  by blast

theorem lockdown_triggered_and_sticky_witness:
  "fst (step idle sample_model) = None \<and>
   \<not> lockdown sample_model \<and>
   true_divide (MainModel_get_infection_number (snd (step idle sample_model)))
     (total_population (snd (step idle sample_model))) = Inr 1 \<and>
   government_action_threshold (snd (step idle sample_model)) < 1 \<and>
   lockdown (snd (step idle sample_model)) \<and>
   lockdown (snd (step recover (snd (step idle sample_model)))) \<and>
   lockdown (snd (steps [idle, recover] (snd (step idle sample_model))))"
proof -
  let ?m' = "snd (step idle sample_model)"
  have returned: "fst (step idle sample_model) = None"
    by code_simp
  have free: "\<not> lockdown sample_model"
    by (simp add: sample_model_def)
  have share: "true_divide (MainModel_get_infection_number ?m') (total_population ?m') = Inr 1"
    by code_simp
  have exceeded: "government_action_threshold ?m' < 1"
    by code_simp
  have "step idle sample_model = (None, ?m')"
    using returned by (simp add: prod_eq_iff)
  with share exceeded lockdown_triggered_and_sticky [of idle sample_model ?m' 1]
  have locked: "lockdown ?m'"
    by blast
  with lockdown_triggered_and_sticky [of recover ?m' _ _ "[idle, recover]"]
  have "lockdown (snd (step recover ?m'))" and "lockdown (snd (steps [idle, recover] ?m'))"
    by blast+
  with returned free share exceeded locked show ?thesis
    by blast
qed

subsection \<open>The halt\<close>

lemma halting_example:
  "fst (step recover sample_model) = None \<and> running sample_model \<and>
   \<not> running (snd (step recover sample_model)) \<and>
   \<not> running (snd (steps [idle, recover] (snd (step recover sample_model))))"
  by code_simp

lemma get_average_stay_in_small:
  assumes "length (schedule_agents m) < 2"
  shows "\<exists>e. get_average_stay_in m = Inl e"
proof (cases "schedule_agents m")
  case Nil
  then show ?thesis
    by (simp add: get_average_stay_in_def divide_by_index_def enumerate_last_def)
next
  case (Cons a rest)
  with assms have "schedule_agents m = [a]"
    by simp
  then show ?thesis
    by (cases "stay_in_prob a")
      (simp_all add: get_average_stay_in_def divide_by_index_def enumerate_last_def)
qed

lemma collect_raises:
  assumes "get_average_stay_in m = Inl e"
  shows "fst (collect m) = Some e" and "running (snd (collect m)) = running m"
    and "grid (snd (collect m)) = grid m"
    and "total_population (snd (collect m)) = total_population m"
    and "dead_agents_number (snd (collect m)) = dead_agents_number m"
  using assms by (simp_all add: collect_def model_reporters_def)

lemma step_stops_at_collect:
  assumes "fst (collect (m\<lparr>step_counter := step_counter m + 1\<rparr>)) = Some e"
  shows "step activate m = collect (m\<lparr>step_counter := step_counter m + 1\<rparr>)"
  using assms by (auto simp: step_def split: prod.splits option.splits)

lemma step_never_returns_small:
  assumes "length (schedule_agents m) < 2"
  shows "fst (step activate m) \<noteq> None" and "running (snd (step activate m)) = running m"
    and "grid (snd (step activate m)) = grid m"
    and "total_population (snd (step activate m)) = total_population m"
    and "dead_agents_number (snd (step activate m)) = dead_agents_number m"
proof -
  let ?m = "m\<lparr>step_counter := step_counter m + 1\<rparr>"
  from assms obtain e where e: "get_average_stay_in ?m = Inl e"
    using get_average_stay_in_small [of ?m] by auto
  have stop: "step activate m = collect ?m"
    using collect_raises(1) [OF e] by (rule step_stops_at_collect)
  show "fst (step activate m) \<noteq> None"
    using collect_raises(1) [OF e] stop by simp
  show "running (snd (step activate m)) = running m"
    using collect_raises(2) [OF e] stop by simp
  show "grid (snd (step activate m)) = grid m"
    using collect_raises(3) [OF e] stop by simp
  show "total_population (snd (step activate m)) = total_population m"
    using collect_raises(4) [OF e] stop by simp
  show "dead_agents_number (snd (step activate m)) = dead_agents_number m"
    using collect_raises(5) [OF e] stop by simp
qed

text \<open>
  Claim C2 against the code. A model constructed on a single cell has one agent, which is
  susceptible, so that the recovered, dead and susceptible counts add up to
  \<open>total_population\<close> before and after the call. \<open>step\<close> raises \<open>ZeroDivisionError\<close>
  while it collects the metrics, \<open>get_average_stay_in\<close> dividing by the last index \<open>0\<close>,
  before it reaches the test of the halt, and \<open>running\<close> stays true.
\<close>

theorem lone_agent_never_halts:
  "case MainModel_init sample_agent sample_generator 0 all_zero lone_arguments of
     Inl e \<Rightarrow> False
   | Inr m \<Rightarrow>
       total_population m = 1 \<and> running m \<and>
       fst (step idle m) = Some ZeroDivisionError \<and>
       MainModel_get_recovered_number (snd (step idle m))
         + MainModel_get_dead_number (snd (step idle m))
         + MainModel_get_susceptible_number (snd (step idle m))
         = total_population (snd (step idle m)) \<and>
       running (snd (step idle m))"
  by code_simp

lemma step_parameters:
  "population_density (snd (step activate m)) = population_density m"
  "death_rate (snd (step activate m)) = death_rate m"
  "transfer_rate (snd (step activate m)) = transfer_rate m"
  "initial_infection_rate (snd (step activate m)) = initial_infection_rate m"
  "recovery_days (snd (step activate m)) = recovery_days m"
  "government_action_threshold (snd (step activate m)) = government_action_threshold m"
  "government_stringent (snd (step activate m)) = government_stringent m"
  "global_aspiration (snd (step activate m)) = global_aspiration m"
  "habituation (snd (step activate m)) = habituation m"
  "learning_rate (snd (step activate m)) = learning_rate m"
  "quarantine_prob (snd (step activate m)) = quarantine_prob m"
  "action_infection_prob (snd (step activate m)) = action_infection_prob m"
  "width (snd (step activate m)) = width m"
  "height (snd (step activate m)) = height m"
  "total_population (snd (step activate m)) = total_population m"
  using arg_cong [OF step_frame [where activate = activate and m = m], of population_density]
    arg_cong [OF step_frame [where activate = activate and m = m], of death_rate]
    arg_cong [OF step_frame [where activate = activate and m = m], of transfer_rate]
    arg_cong [OF step_frame [where activate = activate and m = m], of initial_infection_rate]
    arg_cong [OF step_frame [where activate = activate and m = m], of recovery_days]
    arg_cong [OF step_frame [where activate = activate and m = m], of government_action_threshold]
    arg_cong [OF step_frame [where activate = activate and m = m], of government_stringent]
    arg_cong [OF step_frame [where activate = activate and m = m], of global_aspiration]
    arg_cong [OF step_frame [where activate = activate and m = m], of habituation]
    arg_cong [OF step_frame [where activate = activate and m = m], of learning_rate]
    arg_cong [OF step_frame [where activate = activate and m = m], of quarantine_prob]
    arg_cong [OF step_frame [where activate = activate and m = m], of action_infection_prob]
    arg_cong [OF step_frame [where activate = activate and m = m], of width]
    arg_cong [OF step_frame [where activate = activate and m = m], of height]
    arg_cong [OF step_frame [where activate = activate and m = m], of total_population]
  by simp_all

lemma step_counter_advances: "step_counter (snd (step activate m)) = step_counter m + 1"
  by (auto simp: step_def collect_def schedule_step_def check_lockdown_def check_eradicated_def
      split: prod.splits option.splits sum.splits if_splits)

text \<open>
  Claim C8. Whatever the activation and however the call ends, \<open>step\<close> leaves every
  global parameter as it was: \<open>population_density\<close>, \<open>death_rate\<close>, \<open>transfer_rate\<close>,
  \<open>initial_infection_rate\<close>, \<open>recovery_days\<close>, \<open>government_action_threshold\<close>,
  \<open>government_stringent\<close>, \<open>global_aspiration\<close>, \<open>habituation\<close>, \<open>learning_rate\<close>,
  \<open>quarantine_prob\<close>, \<open>action_infection_prob\<close>, \<open>width\<close>, \<open>height\<close> and
  \<open>total_population\<close>. The model after the call differs from the model before it at most
  in \<open>lockdown\<close>, \<open>dead_agents_number\<close>, \<open>step_counter\<close>, \<open>running\<close>, the collected
  metrics, and what the grid, the scheduler and the generator hold.
\<close>

theorem step_changes_no_parameter:
  "population_density (snd (step activate m)) = population_density m \<and>
   death_rate (snd (step activate m)) = death_rate m \<and>
   transfer_rate (snd (step activate m)) = transfer_rate m \<and>
   initial_infection_rate (snd (step activate m)) = initial_infection_rate m \<and>
   recovery_days (snd (step activate m)) = recovery_days m \<and>
   government_action_threshold (snd (step activate m)) = government_action_threshold m \<and>
   government_stringent (snd (step activate m)) = government_stringent m \<and>
   global_aspiration (snd (step activate m)) = global_aspiration m \<and>
   habituation (snd (step activate m)) = habituation m \<and>
   learning_rate (snd (step activate m)) = learning_rate m \<and>
   quarantine_prob (snd (step activate m)) = quarantine_prob m \<and>
   action_infection_prob (snd (step activate m)) = action_infection_prob m \<and>
   width (snd (step activate m)) = width m \<and>
   height (snd (step activate m)) = height m \<and>
   total_population (snd (step activate m)) = total_population m \<and>
   (snd (step activate m))
     \<lparr>lockdown := lockdown m, dead_agents_number := dead_agents_number m,
      step_counter := step_counter m, running := running m,
      datacollector := datacollector m, grid := grid m,
      schedule_agents := schedule_agents m, schedule_steps := schedule_steps m,
      schedule_time := schedule_time m, random_state := random_state m\<rparr> = m"
  by (simp only: step_parameters step_frame simp_thms)

section \<open>Properties of the construction\<close>

subsection \<open>The loop, one iteration at a time\<close>

lemma populate_skips:
  assumes "next_random gen (random_at st) = (u, drawn)"
    and "\<not> u < arg_population_density args"
  shows "populate new gen np args ((x, y) # coords) st =
           populate new gen np args coords (st\<lparr>random_at := drawn\<rparr>)"
  using assms by simp

lemma populate_creates:
  assumes "next_random gen (random_at st) = (u, drawn)"
    and "u < arg_population_density args"
    and "np_random_choice (arg_initial_infection_rate args) (np (np_used st)) = Inr chosen"
    and "random_choice gen drawn (empties (cells st)) = Inr (c, positioned)"
  shows "populate new gen np args ((x, y) # coords) st =
           populate new gen np args coords
             (enrolled st c
                (created new st (x, y) chosen
                   (c div nat (arg_height args), c mod nat (arg_height args)))
                positioned)"
proof -
  have "empties (cells st) \<noteq> []"
    using assms(4) by (auto simp: random_choice_def)
  with assms show ?thesis
    by (simp add: position_agent_def enrolled_def created_def Let_def)
qed

lemma populate_created:
  assumes "next_random gen (random_at st) = (u, drawn)"
    and "u < arg_population_density args"
    and "populate new gen np args ((x, y) # coords) st = Inr r"
  obtains chosen c positioned where
    "np_random_choice (arg_initial_infection_rate args) (np (np_used st)) = Inr chosen"
    "random_choice gen drawn (empties (cells st)) = Inr (c, positioned)"
proof -
  from assms obtain chosen where
    1: "np_random_choice (arg_initial_infection_rate args) (np (np_used st)) = Inr chosen"
    by (cases "np_random_choice (arg_initial_infection_rate args) (np (np_used st))") auto
  from assms 1 obtain c positioned where
    "random_choice gen drawn (empties (cells st)) = Inr (c, positioned)"
    by (cases "random_choice gen drawn (empties (cells st))")
      (auto simp: position_agent_def Let_def split: if_splits)
  with 1 that show thesis by blast
qed

lemma random_choice_member:
  assumes "random_choice gen g xs = Inr (x, g')"
  shows "x \<in> set xs"
  using assms by (auto simp: random_choice_def split: if_splits prod.splits)

lemma empties_set: "set (empties cs) = {c. c < length cs \<and> cs ! c = None}"
  by (auto simp: empties_def)

lemma empties_distinct: "distinct (empties cs)"
  by (simp add: empties_def)

lemma populate_nobody:
  assumes "\<forall>g. \<not> fst (next_random gen g) < arg_population_density args"
  shows "\<exists>r. populate new gen np args coords st = Inr r \<and> cells r = cells st \<and>
           scheduled r = scheduled st \<and> next_id r = next_id st"
proof (induction coords arbitrary: st)
  case Nil
  then show ?case by simp
next
  case (Cons xy coords)
  obtain x y where xy: "xy = (x, y)" by (cases xy)
  obtain u drawn where d: "next_random gen (random_at st) = (u, drawn)"
    by (cases "next_random gen (random_at st)")
  with assms have "\<not> u < arg_population_density args"
    by (metis fst_conv)
  with d xy Cons.IH [of "st\<lparr>random_at := drawn\<rparr>"] show ?case
    by simp
qed

lemma nobody_constructed:
  assumes "arg_population_density args \<le> 0" and "\<forall>g. 0 \<le> fst (next_random gen g)"
  shows "\<exists>m. MainModel_init new gen seed np args = Inr m \<and> total_population m = 0 \<and>
           schedule_agents m = []"
proof -
  have "\<forall>g. \<not> fst (next_random gen g) < arg_population_density args"
    using assms by (auto simp: not_less intro: order_trans)
  from populate_nobody [OF this, of new np "coord_iter (arg_width args) (arg_height args)"
      "\<lparr>cells = replicate (nat (arg_width args) * nat (arg_height args)) None,
        scheduled = [], next_id = 0, random_at = seed, np_used = 0\<rparr>"]
  show ?thesis
    by (auto simp: MainModel_init_def)
qed

subsection \<open>The grid and the scheduler after the construction\<close>

lemma occupants_replicate: "occupants (replicate n None) = []"
  by (induction n) simp_all

lemma occupants_placed:
  assumes "c < length cs" and "cs ! c = None"
  shows "set (occupants (cs[c := Some a])) = insert a (set (occupants cs))"
proof (intro set_eqI iffI)
  fix b
  assume "b \<in> set (occupants (cs[c := Some a]))"
  then obtain i where "i < length cs" "cs[c := Some a] ! i = Some b"
    by (auto simp: occupants_member)
  then show "b \<in> insert a (set (occupants cs))"
    using assms by (cases "i = c") (auto simp: occupants_member)
next
  fix b
  assume "b \<in> insert a (set (occupants cs))"
  then consider "b = a" | i where "i < length cs" "cs ! i = Some b"
    by (auto simp: occupants_member)
  then show "b \<in> set (occupants (cs[c := Some a]))"
  proof cases
    case 1
    with assms(1) show ?thesis
      by (auto simp: occupants_member intro!: exI [of _ c])
  next
    case 2
    with assms(2) have "i \<noteq> c" by auto
    with 2 show ?thesis
      by (auto simp: occupants_member intro!: exI [of _ i])
  qed
qed

lemma populate_grid_state:
  assumes "populate new gen np args coords st = Inr r"
    and "on_own_cell (nat (arg_height args)) (cells st)"
    and "distinct (map unique_id (scheduled st))"
    and "\<forall>a \<in> set (scheduled st). unique_id a < next_id st"
    and "set (occupants (cells st)) = set (scheduled st)"
  shows "on_own_cell (nat (arg_height args)) (cells r) \<and>
         distinct (map unique_id (scheduled r)) \<and>
         set (occupants (cells r)) = set (scheduled r)"
  using assms
proof (induction coords arbitrary: st)
  case Nil
  then show ?case by simp
next
  case (Cons xy coords)
  obtain x y where xy: "xy = (x, y)" by (cases xy)
  obtain u drawn where d: "next_random gen (random_at st) = (u, drawn)"
    by (cases "next_random gen (random_at st)")
  show ?case
  proof (cases "u < arg_population_density args")
    case False
    have "populate new gen np args coords (st\<lparr>random_at := drawn\<rparr>) = Inr r"
      using Cons.prems(1) d False xy by simp
    from Cons.IH [OF this] Cons.prems(2-) show ?thesis
      by simp
  next
    case True
    from d True Cons.prems(1) obtain chosen c positioned where
      chosen: "np_random_choice (arg_initial_infection_rate args) (np (np_used st)) = Inr chosen"
      and c: "random_choice gen drawn (empties (cells st)) = Inr (c, positioned)"
      unfolding xy by (rule populate_created)
    let ?h = "nat (arg_height args)"
    let ?placed = "created new st (x, y) chosen (c div ?h, c mod ?h)"
    let ?st = "enrolled st c ?placed positioned"
    have cell: "c < length (cells st)" "cells st ! c = None"
      using random_choice_member [OF c] by (simp_all add: empties_set)
    have placed: "unique_id ?placed = next_id st" "pos ?placed = (c div ?h, c mod ?h)"
      by (simp_all add: created_def)
    have onward: "populate new gen np args coords ?st = Inr r"
      using populate_creates [where new = new and np = np and x = x and y = y
          and coords = coords, OF d True chosen c] Cons.prems(1) xy
      by simp
    moreover have "on_own_cell ?h (cells ?st)"
      using Cons.prems(2) cell placed
      by (auto simp: on_own_cell_nth enrolled_def nth_list_update)
    moreover have "distinct (map unique_id (scheduled ?st))"
      using Cons.prems(3,4) placed by (auto simp: enrolled_def)
    moreover have "\<forall>a \<in> set (scheduled ?st). unique_id a < next_id ?st"
      using Cons.prems(4) placed by (auto simp: enrolled_def less_Suc_eq)
    moreover have "set (occupants (cells ?st)) = set (scheduled ?st)"
      using Cons.prems(5) occupants_placed [OF cell, of ?placed] by (simp add: enrolled_def)
    ultimately show ?thesis
      by (rule Cons.IH)
  qed
qed

lemma constructed_grid_state:
  assumes "MainModel_init new gen seed np args = Inr m"
  shows "grid_state m" and "set (occupants (grid m)) = set (schedule_agents m)"
proof -
  let ?st = "\<lparr>cells = replicate (nat (arg_width args) * nat (arg_height args)) None,
              scheduled = [], next_id = 0, random_at = seed, np_used = 0\<rparr>"
  from assms obtain r where
    r: "populate new gen np args (coord_iter (arg_width args) (arg_height args)) ?st = Inr r"
    and m: "schedule_agents m = scheduled r" "grid m = cells r" "height m = arg_height args"
    by (auto simp: MainModel_init_def split: sum.splits)
  have "on_own_cell (nat (arg_height args)) (cells ?st)"
    by (simp add: on_own_cell_nth)
  from populate_grid_state [OF r this] m
  show "grid_state m" and "set (occupants (grid m)) = set (schedule_agents m)"
    by (simp_all add: grid_state_def occupants_replicate)
qed

subsection \<open>Which arguments are accepted\<close>

lemma empties_after_placing:
  assumes "c \<in> set (empties cs)"
  shows "Suc (length (empties (cs[c := Some a]))) = length (empties cs)"
proof -
  have "set (empties (cs[c := Some a])) = set (empties cs) - {c}"
    using assms by (auto simp: empties_set nth_list_update)
  then have "card (set (empties (cs[c := Some a]))) = card (set (empties cs)) - 1"
    using assms by simp
  moreover have "0 < card (set (empties cs))"
    using assms by (auto simp: card_gt_0_iff)
  ultimately show ?thesis
    by (simp add: distinct_card [OF empties_distinct])
qed

lemma random_choice_in_range:
  assumes "\<forall>n g. 0 < n \<longrightarrow> fst (next_randbelow gen n g) < n" and "xs \<noteq> []"
  shows "\<exists>x g'. random_choice gen g xs = Inr (x, g')"
proof -
  obtain i g' where i: "next_randbelow gen (length xs) g = (i, g')"
    by (cases "next_randbelow gen (length xs) g")
  with assms have "i < length xs"
    by (metis fst_conv length_greater_0_conv)
  with i assms(2) show ?thesis
    by (simp add: random_choice_def)
qed

lemma populate_succeeds:
  assumes "0 \<le> arg_initial_infection_rate args" "arg_initial_infection_rate args \<le> 1"
    and "\<forall>n g. 0 < n \<longrightarrow> fst (next_randbelow gen n g) < n"
    and "length coords \<le> length (empties (cells st))"
  shows "\<exists>r. populate new gen np args coords st = Inr r"
  using assms(4)
proof (induction coords arbitrary: st)
  case Nil
  then show ?case by simp
next
  case (Cons xy coords)
  obtain x y where xy: "xy = (x, y)" by (cases xy)
  obtain u drawn where d: "next_random gen (random_at st) = (u, drawn)"
    by (cases "next_random gen (random_at st)")
  show ?case
  proof (cases "u < arg_population_density args")
    case False
    with Cons.IH [of "st\<lparr>random_at := drawn\<rparr>"] Cons.prems xy d
    show ?thesis by simp
  next
    case True
    obtain chosen where chosen:
      "np_random_choice (arg_initial_infection_rate args) (np (np_used st)) = Inr chosen"
      using assms(1,2) by (simp add: np_random_choice_def)
    have "empties (cells st) \<noteq> []"
      using Cons.prems by auto
    with assms(3) obtain c positioned where
      picked: "random_choice gen drawn (empties (cells st)) = Inr (c, positioned)"
      using random_choice_in_range [of gen "empties (cells st)" drawn] by blast
    have c: "c \<in> set (empties (cells st))"
      using picked by (rule random_choice_member)
    let ?placed = "created new st (x, y) chosen
                     (c div nat (arg_height args), c mod nat (arg_height args))"
    have "length coords \<le> length (empties (cells (enrolled st c ?placed positioned)))"
      using empties_after_placing [OF c, of ?placed] Cons.prems by (simp add: enrolled_def)
    from Cons.IH [OF this] obtain r where
      "populate new gen np args coords (enrolled st c ?placed positioned) = Inr r" ..
    then show ?thesis
      using populate_creates [where new = new and np = np and x = x and y = y
          and coords = coords, OF d True chosen picked] xy
      by simp
  qed
qed

lemma empties_replicate: "length (empties (replicate n None)) = n"
  by (simp add: empties_def cong: filter_cong)

lemma length_coord_iter: "length (coord_iter w h) = nat w * nat h"
  by (simp add: coord_iter_def length_product)

lemma coord_iter_first:
  assumes "0 < w" "0 < h"
  shows "\<exists>rest. coord_iter w h = (0, 0) # rest"
proof -
  have "[0..<nat w] = 0 # [1..<nat w]" and "[0..<nat h] = 0 # [1..<nat h]"
    using assms by (simp_all add: upt_conv_Cons)
  then show ?thesis
    by (simp add: coord_iter_def)
qed

lemma construction_rejected_by_numpy:
  assumes "arg_initial_infection_rate args < 0 \<or> 1 < arg_initial_infection_rate args"
    and "0 < arg_width args" "0 < arg_height args"
    and "fst (next_random gen seed) < arg_population_density args"
  shows "MainModel_init new gen seed np args = Inl ValueError"
proof -
  obtain rest where "coord_iter (arg_width args) (arg_height args) = (0, 0) # rest"
    using coord_iter_first [OF assms(2,3)] by blast
  then show ?thesis
    using assms(1,4)
    by (auto simp: MainModel_init_def np_random_choice_def split: prod.splits)
qed

text \<open>
  Claim C7, as stated, fails: \<open>__init__\<close> checks no argument. With a population density of
  \<open>2\<close>, a death rate of \<open>5\<close> and a transfer rate of \<open>-1\<close>, all outside \<open>[0, 1]\<close>, the
  construction succeeds and stores the values as given.
\<close>

theorem out_of_range_arguments_accepted:
  "1 < arg_population_density unvalidated_arguments \<and>
   1 < arg_death_rate unvalidated_arguments \<and>
   arg_transfer_rate unvalidated_arguments < 0 \<and>
   (case MainModel_init sample_agent sample_generator 0 all_zero unvalidated_arguments of
      Inl e \<Rightarrow> False
    | Inr m \<Rightarrow>
        population_density m = 2 \<and> death_rate m = 5 \<and> transfer_rate m = - 1 \<and>
        total_population m = 2)"
  by code_simp

text \<open>
  Claim C7, amended. The construction validates nothing of its own. For every assignment
  with positive grid dimensions and an initial infection rate in \<open>[0, 1]\<close>, whatever the
  density and the other rates, in range or not, the construction succeeds (for every
  generator whose \<open>_randbelow(n)\<close> returns a number below \<open>n\<close>).
\<close>

theorem construction_succeeds:
  assumes "0 < arg_width args" and "0 < arg_height args"
    and "0 \<le> arg_initial_infection_rate args" and "arg_initial_infection_rate args \<le> 1"
    and "\<forall>n g. 0 < n \<longrightarrow> fst (next_randbelow gen n g) < n"
  shows "\<exists>m. MainModel_init new gen seed np args = Inr m"
proof -
  let ?st = "\<lparr>cells = replicate (nat (arg_width args) * nat (arg_height args)) None,
              scheduled = [], next_id = 0, random_at = seed, np_used = 0\<rparr>"
  have "length (coord_iter (arg_width args) (arg_height args)) \<le> length (empties (cells ?st))"
    by (simp add: empties_replicate length_coord_iter)
  from populate_succeeds [OF assms(3-5) this, of new np] obtain r where
    "populate new gen np args (coord_iter (arg_width args) (arg_height args)) ?st = Inr r" ..
  then show ?thesis
    by (simp add: MainModel_init_def)
qed

theorem construction_succeeds_witness:
  "0 < arg_width sample_arguments \<and> 0 < arg_height sample_arguments \<and>
   0 \<le> arg_initial_infection_rate sample_arguments \<and>
   arg_initial_infection_rate sample_arguments \<le> 1 \<and>
   (\<forall>n g. fst (next_randbelow sample_generator (Suc n) g) < Suc n) \<and>
   (\<exists>m. MainModel_init sample_agent sample_generator 0 all_high sample_arguments = Inr m)"
proof -
  have dims: "0 < arg_width sample_arguments" "0 < arg_height sample_arguments"
    by (simp_all add: sample_arguments_def)
  have rate: "0 \<le> arg_initial_infection_rate sample_arguments"
    "arg_initial_infection_rate sample_arguments \<le> 1"
    by (simp_all add: sample_arguments_def)
  have below: "\<forall>n g. 0 < n \<longrightarrow> fst (next_randbelow sample_generator n g) < n"
    by (simp add: sample_generator_def)
  then have "\<forall>n g. fst (next_randbelow sample_generator (Suc n) g) < Suc n"
    by simp
  with dims rate
    construction_succeeds [OF dims rate below, of sample_agent 0 all_high]
  show ?thesis by blast
qed

subsection \<open>The quarantine state of the agents infected at construction\<close>

lemma not_left: "\<not> isl x \<Longrightarrow> x = Inr (projr x)"
  by (cases x) simp_all

lemma occupants_update:
  assumes "list_all P (occupants cs)" "P a"
  shows "list_all P (occupants (cs[c := Some a]))"
  using assms
proof (induction cs arbitrary: c rule: occupants.induct)
  case 1
  then show ?case by simp
next
  case (2 rest)
  then show ?case by (cases c) simp_all
next
  case (3 agent rest)
  then show ?case by (cases c) simp_all
qed

lemma created_free_if_infected:
  assumes "\<forall>i p. infectionstate (new i p) \<noteq> INFECTED"
  shows "free_if_infected (created new st xy chosen p)"
  using assms by (cases xy) (simp add: free_if_infected_def created_def)

lemma populate_seeds_free:
  assumes "\<forall>i p. infectionstate (new i p) \<noteq> INFECTED"
    and "populate new gen np args coords st = Inr r"
    and "list_all free_if_infected (scheduled st)"
    and "list_all free_if_infected (occupants (cells st))"
  shows "list_all free_if_infected (scheduled r) \<and> list_all free_if_infected (occupants (cells r))"
  using assms(2-)
proof (induction coords arbitrary: st)
  case Nil
  then show ?case by simp
next
  case (Cons xy coords)
  obtain x y where xy: "xy = (x, y)" by (cases xy)
  obtain u drawn where d: "next_random gen (random_at st) = (u, drawn)"
    by (cases "next_random gen (random_at st)")
  show ?case
  proof (cases "u < arg_population_density args")
    case False
    with Cons.prems xy d Cons.IH [of "st\<lparr>random_at := drawn\<rparr>"]
    show ?thesis by simp
  next
    case True
    from d True Cons.prems(1) obtain chosen c positioned where
      chosen: "np_random_choice (arg_initial_infection_rate args) (np (np_used st)) = Inr chosen"
      and c: "random_choice gen drawn (empties (cells st)) = Inr (c, positioned)"
      unfolding xy by (rule populate_created)
    let ?placed = "created new st (x, y) chosen
                     (c div nat (arg_height args), c mod nat (arg_height args))"
    have free: "free_if_infected ?placed"
      using assms(1) by (rule created_free_if_infected)
    have "populate new gen np args coords (enrolled st c ?placed positioned) = Inr r"
      using populate_creates [where new = new and np = np and x = x and y = y
          and coords = coords, OF d True chosen c] Cons.prems(1) xy
      by simp
    moreover have "list_all free_if_infected (scheduled (enrolled st c ?placed positioned))"
      using Cons.prems(2) free by (simp add: enrolled_def)
    moreover
    have "list_all free_if_infected (occupants (cells (enrolled st c ?placed positioned)))"
      using occupants_update [OF Cons.prems(3) free] by (simp add: enrolled_def)
    ultimately show ?thesis
      by (rule Cons.IH)
  qed
qed

text \<open>
  Claim C6, as stated, fails for the agents infected at construction. Here every agent is
  seeded as infected, and the deviates of both generators are \<open>0\<close>, below
  \<open>quarantine_prob\<close>, so that the sampling the specification describes quarantines the
  agent on any of them; the constructed agents are free.
\<close>

theorem seeded_agents_not_sampled:
  "case MainModel_init sample_agent sample_generator 0 all_zero seeding_arguments of
     Inl e \<Rightarrow> False
   | Inr m \<Rightarrow>
       map (\<lambda>a. (infectionstate a, quarantinestate a)) (schedule_agents m)
         = [(INFECTED, FREE), (INFECTED, FREE)] \<and>
       specified_onset_sample (quarantine_prob m) (all_zero 0) = QUARANTINE \<and>
       specified_onset_sample (quarantine_prob m) (fst (next_random sample_generator 0))
         = QUARANTINE"
  by code_simp

text \<open>
  Claim C6, amended. The construction sets \<open>quarantine_prob\<close> to \<open>0.3\<close>, and every agent
  it leaves infected, the constructor of agents creating none infected, is free with
  infection time \<open>0\<close>, on the grid and in the schedule, whatever the draws: the quarantine
  state of an agent infected at construction is assigned, not sampled.
\<close>

theorem seeded_agents_are_free:
  assumes "MainModel_init new gen seed np args = Inr m"
    and "\<forall>i p. infectionstate (new i p) \<noteq> INFECTED"
  shows "quarantine_prob m = 3 / 10 \<and>
         (\<forall>a \<in> set (schedule_agents m) \<union> set (occupants (grid m)).
            infectionstate a = INFECTED \<longrightarrow> quarantinestate a = FREE \<and> infected_time a = 0)"
proof -
  let ?st = "\<lparr>cells = replicate (nat (arg_width args) * nat (arg_height args)) None,
              scheduled = [], next_id = 0, random_at = seed, np_used = 0\<rparr>"
  from assms(1) obtain r where
    r: "populate new gen np args (coord_iter (arg_width args) (arg_height args)) ?st = Inr r"
    and m: "schedule_agents m = scheduled r" "grid m = cells r" "quarantine_prob m = 3 / 10"
    by (auto simp: MainModel_init_def split: sum.splits)
  have "list_all free_if_infected (scheduled ?st)"
    and "list_all free_if_infected (occupants (cells ?st))"
    by (simp_all add: occupants_replicate)
  from populate_seeds_free [OF assms(2) r this]
  have "\<forall>a \<in> set (scheduled r) \<union> set (occupants (cells r)). free_if_infected a"
    by (auto simp: list_all_iff)
  then show ?thesis
    using m by (auto simp: free_if_infected_def split: if_splits)
qed

theorem seeded_agents_are_free_witness:
  "\<not> isl (MainModel_init sample_agent sample_generator 0 all_high sample_arguments) \<and>
   (\<forall>i p. infectionstate (sample_agent i p) \<noteq> INFECTED) \<and>
   quarantine_prob (projr (MainModel_init sample_agent sample_generator 0 all_high sample_arguments))
     = 3 / 10 \<and>
   map (\<lambda>a. (infectionstate a, quarantinestate a, infected_time a))
     (schedule_agents
        (projr (MainModel_init sample_agent sample_generator 0 all_high sample_arguments)))
     = [(INFECTED, FREE, 0), (INFECTED, FREE, 0)]"
proof -
  let ?init = "MainModel_init sample_agent sample_generator 0 all_high sample_arguments"
  have built: "\<not> isl ?init"
    by code_simp
  have healthy: "\<forall>i p. infectionstate (sample_agent i p) \<noteq> INFECTED"
    by (simp add: sample_agent_def)
  have agents: "map (\<lambda>a. (infectionstate a, quarantinestate a, infected_time a))
      (schedule_agents (projr ?init)) = [(INFECTED, FREE, 0), (INFECTED, FREE, 0)]"
    by code_simp
  from seeded_agents_are_free [OF not_left [OF built] healthy]
  have "quarantine_prob (projr ?init) = 3 / 10"
    by blast
  with built healthy agents show ?thesis
    by blast
qed

subsection \<open>The two random sources\<close>

lemma empties_of_same_keys:
  assumes "map (map_option f) cs1 = map (map_option f) cs2"
  shows "empties cs1 = empties cs2"
proof -
  have len: "length cs1 = length cs2"
    using assms by (rule map_eq_imp_length_eq)
  have "cs1 ! c = None \<longleftrightarrow> cs2 ! c = None" if "c < length cs1" for c
  proof -
    have "map_option f (cs1 ! c) = map_option f (cs2 ! c)"
      using that len arg_cong [OF assms, of "\<lambda>xs. xs ! c"] by simp
    then show ?thesis
      by (cases "cs1 ! c"; cases "cs2 ! c") simp_all
  qed
  then show ?thesis
    unfolding empties_def len [symmetric] by (auto intro: filter_cong)
qed

lemma created_key: "agent_key (created new st xy chosen p) = (next_id st, p)"
  by (simp add: agent_key_def created_def)

lemma populated_key_enrolled:
  assumes "populated_key st1 = populated_key st2"
    and "agent_key a1 = agent_key a2"
  shows "populated_key (enrolled st1 c a1 g) = populated_key (enrolled st2 c a2 g)"
  using assms by (simp add: populated_key_def enrolled_def map_update)

lemma populate_placement:
  assumes "populate new gen np1 args coords st1 = Inr r1"
    and "populate new gen np2 args coords st2 = Inr r2"
    and "populated_key st1 = populated_key st2"
  shows "populated_key r1 = populated_key r2"
  using assms
proof (induction coords arbitrary: st1 st2)
  case Nil
  then show ?case by simp
next
  case (Cons xy coords)
  obtain x y where xy: "xy = (x, y)" by (cases xy)
  have at: "random_at st1 = random_at st2" and ids: "next_id st1 = next_id st2"
    and empty: "empties (cells st1) = empties (cells st2)"
    using Cons.prems(3) by (auto simp: populated_key_def intro: empties_of_same_keys)
  obtain u drawn where d1: "next_random gen (random_at st1) = (u, drawn)"
    by (cases "next_random gen (random_at st1)")
  then have d2: "next_random gen (random_at st2) = (u, drawn)"
    using at by simp
  show ?case
  proof (cases "u < arg_population_density args")
    case False
    have "populate new gen np1 args coords (st1\<lparr>random_at := drawn\<rparr>) = Inr r1"
      using Cons.prems(1) False xy d1 by simp
    moreover
    have "populate new gen np2 args coords (st2\<lparr>random_at := drawn\<rparr>) = Inr r2"
      using Cons.prems(2) False xy d2 by simp
    moreover
    have "populated_key (st1\<lparr>random_at := drawn\<rparr>) = populated_key (st2\<lparr>random_at := drawn\<rparr>)"
      using Cons.prems(3) by (simp add: populated_key_def)
    ultimately show ?thesis
      by (rule Cons.IH)
  next
    case True
    from d1 True Cons.prems(1) obtain chosen1 c positioned where
      chosen1: "np_random_choice (arg_initial_infection_rate args) (np1 (np_used st1)) = Inr chosen1"
      and c: "random_choice gen drawn (empties (cells st1)) = Inr (c, positioned)"
      unfolding xy by (rule populate_created)
    from d2 True Cons.prems(2) obtain chosen2 c2 positioned2 where
      chosen2: "np_random_choice (arg_initial_infection_rate args) (np2 (np_used st2)) = Inr chosen2"
      and c2: "random_choice gen drawn (empties (cells st2)) = Inr (c2, positioned2)"
      unfolding xy by (rule populate_created)
    have same: "c2 = c" "positioned2 = positioned"
      using c c2 empty by simp_all
    let ?p = "(c div nat (arg_height args), c mod nat (arg_height args))"
    let ?a1 = "created new st1 (x, y) chosen1 ?p"
    let ?a2 = "created new st2 (x, y) chosen2 ?p"
    have "populate new gen np1 args coords (enrolled st1 c ?a1 positioned) = Inr r1"
      using populate_creates [where new = new and np = np1 and x = x and y = y
          and coords = coords, OF d1 True chosen1 c] Cons.prems(1) xy
      by simp
    moreover have "populate new gen np2 args coords (enrolled st2 c ?a2 positioned) = Inr r2"
      using populate_creates [where new = new and np = np2 and x = x and y = y
          and coords = coords, OF d2 True chosen2 c2] Cons.prems(2) xy same
      by simp
    moreover have "populated_key (enrolled st1 c ?a1 positioned)
        = populated_key (enrolled st2 c ?a2 positioned)"
      using Cons.prems(3) ids by (intro populated_key_enrolled) (simp_all add: created_key)
    ultimately show ?thesis
      by (rule Cons.IH)
  qed
qed

lemma populate_counts:
  assumes "populate new gen np args coords st = Inr r"
  shows "np_used st \<le> np_used r \<and> np_used r + next_id st = next_id r + np_used st"
  using assms
proof (induction coords arbitrary: st)
  case Nil
  then show ?case by simp
next
  case (Cons xy coords)
  obtain x y where xy: "xy = (x, y)" by (cases xy)
  obtain u drawn where d: "next_random gen (random_at st) = (u, drawn)"
    by (cases "next_random gen (random_at st)")
  show ?case
  proof (cases "u < arg_population_density args")
    case False
    with Cons.prems xy d Cons.IH [of "st\<lparr>random_at := drawn\<rparr>"]
    show ?thesis by simp
  next
    case True
    from d True Cons.prems obtain chosen c positioned where
      chosen: "np_random_choice (arg_initial_infection_rate args) (np (np_used st)) = Inr chosen"
      and c: "random_choice gen drawn (empties (cells st)) = Inr (c, positioned)"
      unfolding xy by (rule populate_created)
    let ?st = "enrolled st c (created new st (x, y) chosen
                 (c div nat (arg_height args), c mod nat (arg_height args))) positioned"
    have "populate new gen np args coords ?st = Inr r"
      using populate_creates [where new = new and np = np and x = x and y = y
          and coords = coords, OF d True chosen c] Cons.prems xy
      by simp
    from Cons.IH [OF this] show ?thesis
      by (simp add: enrolled_def)
  qed
qed

lemma populate_reads_prefix:
  assumes "populate new gen np1 args coords st = Inr r"
    and "\<forall>j. np_used st \<le> j \<and> j < np_used r \<longrightarrow> np1 j = np2 j"
  shows "populate new gen np2 args coords st = Inr r"
  using assms
proof (induction coords arbitrary: st)
  case Nil
  then show ?case by simp
next
  case (Cons xy coords)
  obtain x y where xy: "xy = (x, y)" by (cases xy)
  obtain u drawn where d: "next_random gen (random_at st) = (u, drawn)"
    by (cases "next_random gen (random_at st)")
  show ?case
  proof (cases "u < arg_population_density args")
    case False
    have "populate new gen np1 args coords (st\<lparr>random_at := drawn\<rparr>) = Inr r"
      using Cons.prems(1) False xy d by simp
    moreover have "\<forall>j. np_used (st\<lparr>random_at := drawn\<rparr>) \<le> j \<and> j < np_used r
        \<longrightarrow> np1 j = np2 j"
      using Cons.prems(2) by simp
    ultimately have "populate new gen np2 args coords (st\<lparr>random_at := drawn\<rparr>) = Inr r"
      by (rule Cons.IH)
    with False xy d show ?thesis by simp
  next
    case True
    from d True Cons.prems(1) obtain chosen c positioned where
      chosen: "np_random_choice (arg_initial_infection_rate args) (np1 (np_used st)) = Inr chosen"
      and c: "random_choice gen drawn (empties (cells st)) = Inr (c, positioned)"
      unfolding xy by (rule populate_created)
    let ?st = "enrolled st c (created new st (x, y) chosen
                 (c div nat (arg_height args), c mod nat (arg_height args))) positioned"
    have onward: "populate new gen np1 args coords ?st = Inr r"
      using populate_creates [where new = new and np = np1 and x = x and y = y
          and coords = coords, OF d True chosen c] Cons.prems(1) xy
      by simp
    from populate_counts [OF onward] have "np_used st < np_used r"
      by (simp add: enrolled_def)
    with Cons.prems(2) have "np1 (np_used st) = np2 (np_used st)"
      by simp
    with chosen have chosen2:
      "np_random_choice (arg_initial_infection_rate args) (np2 (np_used st)) = Inr chosen"
      by simp
    have "\<forall>j. np_used ?st \<le> j \<and> j < np_used r \<longrightarrow> np1 j = np2 j"
      using Cons.prems(2) by (simp add: enrolled_def)
    with onward have "populate new gen np2 args coords ?st = Inr r"
      by (rule Cons.IH)
    then show ?thesis
      using populate_creates [where new = new and np = np2 and x = x and y = y
          and coords = coords, OF d True chosen2 c] xy
      by simp
  qed
qed

text \<open>
  Claim C5, as stated, fails: the initial infections are drawn with \<open>np.random.choice\<close>,
  from numpy's global generator, which the model's generator and its seed do not control.
  Two constructions with the same arguments, the same generator of the model and the same
  seed differ in their initial infections when numpy's draws differ.
\<close>

theorem numpy_draws_decide_infections:
  "(case MainModel_init sample_agent sample_generator 0 all_zero sample_arguments of
      Inl e \<Rightarrow> False
    | Inr m \<Rightarrow> map infectionstate (schedule_agents m) = [CLEAN, CLEAN]) \<and>
   (case MainModel_init sample_agent sample_generator 0 all_high sample_arguments of
      Inl e \<Rightarrow> False
    | Inr m \<Rightarrow> map infectionstate (schedule_agents m) = [INFECTED, INFECTED])"
  by code_simp

text \<open>
  Claim C5, amended. Two constructions with the same arguments and the same seed of the
  model's own generator place the same agents on the same cells, with the same
  identifiers, positions and \<open>total_population\<close>, and leave that generator in the same
  state, whatever numpy's generator draws; when numpy's generator also gives the same
  draws, one for each agent placed, the two initial states are identical.
\<close>

theorem construction_depends_on_both_sources:
  assumes "MainModel_init new gen seed np1 args = Inr m1"
    and "MainModel_init new gen seed np2 args = Inr m2"
  shows "placement m1 = placement m2 \<and>
         random_state m1 = random_state m2 \<and>
         ((\<forall>j<total_population m1. np1 j = np2 j) \<longrightarrow> m1 = m2)"
proof -
  let ?st = "\<lparr>cells = replicate (nat (arg_width args) * nat (arg_height args)) None,
              scheduled = [], next_id = 0, random_at = seed, np_used = 0\<rparr>"
  let ?coords = "coord_iter (arg_width args) (arg_height args)"
  from assms(1) obtain r1 where r1: "populate new gen np1 args ?coords ?st = Inr r1"
    by (auto simp: MainModel_init_def split: sum.splits)
  from assms(2) obtain r2 where r2: "populate new gen np2 args ?coords ?st = Inr r2"
    by (auto simp: MainModel_init_def split: sum.splits)
  have "populated_key r1 = populated_key r2"
    using r1 r2 by (rule populate_placement) simp
  moreover have fields1: "grid m1 = cells r1" "schedule_agents m1 = scheduled r1"
    "total_population m1 = next_id r1" "random_state m1 = random_at r1"
    using assms(1) r1 by (auto simp: MainModel_init_def)
  moreover have "grid m2 = cells r2" "schedule_agents m2 = scheduled r2"
    "total_population m2 = next_id r2" "random_state m2 = random_at r2"
    using assms(2) r2 by (auto simp: MainModel_init_def)
  ultimately have same: "placement m1 = placement m2 \<and> random_state m1 = random_state m2"
    by (simp add: placement_def populated_key_def)
  have "m1 = m2" if agree: "\<forall>j<total_population m1. np1 j = np2 j"
  proof -
    from populate_counts [OF r1] have "np_used r1 = next_id r1"
      by simp
    with agree fields1 have "\<forall>j. np_used ?st \<le> j \<and> j < np_used r1 \<longrightarrow> np1 j = np2 j"
      by simp
    with r1 have "populate new gen np2 args ?coords ?st = Inr r1"
      by (rule populate_reads_prefix)
    with r1 assms show ?thesis
      by (simp add: MainModel_init_def)
  qed
  with same show ?thesis
    by blast
qed

theorem construction_depends_on_both_sources_witness:
  "\<not> isl (MainModel_init sample_agent sample_generator 0 all_high sample_arguments) \<and>
   \<not> isl (MainModel_init sample_agent sample_generator 0 high_then_zero sample_arguments) \<and>
   total_population
     (projr (MainModel_init sample_agent sample_generator 0 all_high sample_arguments)) = 2 \<and>
   all_high 0 = high_then_zero 0 \<and> all_high 1 = high_then_zero 1 \<and>
   all_high 2 \<noteq> high_then_zero 2 \<and>
   placement (projr (MainModel_init sample_agent sample_generator 0 all_high sample_arguments))
     = placement
         (projr (MainModel_init sample_agent sample_generator 0 high_then_zero sample_arguments)) \<and>
   projr (MainModel_init sample_agent sample_generator 0 all_high sample_arguments)
     = projr (MainModel_init sample_agent sample_generator 0 high_then_zero sample_arguments)"
proof -
  let ?one = "MainModel_init sample_agent sample_generator 0 all_high sample_arguments"
  let ?other = "MainModel_init sample_agent sample_generator 0 high_then_zero sample_arguments"
  have built: "\<not> isl ?one" "\<not> isl ?other"
    by code_simp+
  have two: "total_population (projr ?one) = 2"
    by code_simp
  have draws: "all_high 0 = high_then_zero 0" "all_high 1 = high_then_zero 1"
    "all_high 2 \<noteq> high_then_zero 2"
    by (simp_all add: all_high_def high_then_zero_def)
  have "\<forall>j<total_population (projr ?one). all_high j = high_then_zero j"
    unfolding two by (simp add: all_high_def high_then_zero_def)
  with construction_depends_on_both_sources [OF not_left [OF built(1)] not_left [OF built(2)]]
  have "placement (projr ?one) = placement (projr ?other)" and "projr ?one = projr ?other"
    by blast+
  with built two draws show ?thesis
    by blast
qed

end
